theory Spec2Isabelle
  imports Main "HOL-Library.Word" "HOL-Library.Sublist"
begin

section \<open>The OneAgent operator's event handler (pkg/stub/handler.go)\<close>

text \<open>
  A shallow embedding of \<^verbatim>\<open>pkg/stub/handler.go\<close>. Go structs are records, a Go slice or
  map that \<^verbatim>\<open>reflect.DeepEqual\<close> or a nil test can tell from the empty one is an
  \<open>option\<close> (\<open>None\<close> is nil), a pointer field is an \<open>option\<close>, \<^verbatim>\<open>uint16\<close> is
  \<open>16 word\<close>. Calls to the collaborators (the control-plane client, the credential
  store, the version authority, the clock) are answered by a record of reply functions;
  every reply may depend on all calls the pass has made so far, which are kept, with
  their replies, in a list of events. Logging is left out.
\<close>

subsection \<open>Kubernetes API objects, as far as the handler reads or writes them\<close>

record SecretKeySelector =
  sks_Name :: string
  sks_Key :: string
  sks_Optional :: "bool option"

record EnvVarSource =
  FieldRef :: "string option"
  ResourceFieldRef :: "string option"
  ConfigMapKeyRef :: "string option"
  SecretKeyRef :: "SecretKeySelector option"

record EnvVar =
  env_Name :: string
  env_Value :: string
  env_ValueFrom :: "EnvVarSource option"

record Toleration =
  tol_Key :: string
  tol_Operator :: string
  tol_Value :: string
  tol_Effect :: string
  tol_TolerationSeconds :: "64 word option"

record ContainerStatus =
  cs_Name :: string
  cs_Ready :: bool

record Pod =
  pod_Name :: string
  pod_NodeName :: string
  pod_HostIP :: string
  pod_ContainerStatuses :: "ContainerStatus list"

record Probe =
  probe_ExecCommand :: "string list"
  probe_InitialDelaySeconds :: "32 word"
  probe_PeriodSeconds :: "32 word"

record Container =
  c_Name :: string
  c_Image :: string
  c_Args :: "string list option"
  c_Env :: "EnvVar list option"
  c_ImagePullPolicy :: string
  c_VolumeMounts :: "(string \<times> string) list"
  c_Privileged :: "bool option"
  c_ReadinessProbe :: "Probe option"

record PodSpec =
  ps_Volumes :: "(string \<times> string) list"
  ps_NodeSelector :: "(string \<rightharpoonup> string) option"
  ps_ServiceAccountName :: string
  ps_HostNetwork :: bool
  ps_HostPID :: bool
  ps_HostIPC :: bool
  ps_Tolerations :: "Toleration list option"
  ps_Containers :: "Container list"

record PodTemplateSpec =
  tpl_Labels :: "(string \<rightharpoonup> string) option"
  tpl_Spec :: PodSpec

record DaemonSetSpec =
  dss_Selector :: "(string \<rightharpoonup> string) option"
  dss_Template :: PodTemplateSpec

record OwnerReference =
  own_APIVersion :: string
  own_Kind :: string
  own_Name :: string
  own_UID :: string
  own_Controller :: "bool option"
  own_BlockOwnerDeletion :: "bool option"

record DaemonSet =
  ds_Name :: string
  ds_Namespace :: string
  ds_Labels :: "(string \<rightharpoonup> string) option"
  ds_OwnerReferences :: "OwnerReference list"
  ds_Spec :: DaemonSetSpec

subsection \<open>The OneAgent custom resource (package v1alpha1, as handler.go uses it)\<close>

text \<open>
  Modelled from the spec: the declarations of the types \<^verbatim>\<open>OneAgent\<close>, \<^verbatim>\<open>OneAgentSpec\<close>,
  \<^verbatim>\<open>OneAgentStatus\<close> and \<^verbatim>\<open>OneAgentInstance\<close> of package \<^verbatim>\<open>pkg/apis/dynatrace/v1alpha1\<close>
  are not among the sources. The fields are the ones handler.go reads and writes, listed in
  the order of the comments of copyDaemonSetSpecToOneAgentSpec, with the types its
  expressions fix (\<^verbatim>\<open>WaitReadySeconds\<close> is dereferenced and compared with a \<^verbatim>\<open>uint16\<close>,
  \<^verbatim>\<open>Status.Items\<close> is indexed by a node name); they are FleetSpec, FleetStatus and
  InstanceRecord of the data model of the specification.
\<close>

record OneAgentSpec =
  ApiUrl :: string
  SkipCertCheck :: bool
  NodeSelector :: "(string \<rightharpoonup> string) option"
  Tolerations :: "Toleration list option"
  Image :: string
  Tokens :: string
  WaitReadySeconds :: "16 word option"
  Args :: "string list option"
  Env :: "EnvVar list option"

record OneAgentInstance =
  PodName :: string
  inst_Version :: string

record OneAgentStatus =
  Version :: string
  Items :: "(string \<rightharpoonup> OneAgentInstance) option"
  UpdatedTimestamp :: nat

record OneAgent =
  APIVersion :: string
  Kind :: string
  Name :: string
  Namespace :: string
  UID :: string
  Spec :: OneAgentSpec
  Status :: OneAgentStatus

subsection \<open>Errors, panics and what a function hands back\<close>

datatype error =
    ApiError string
  | NotFound string
  | MissingKey string string
  | TooManyPods nat

datatype panic = IndexOutOfRange | NilPointerDereference

text \<open>What a Go function of result type \<^verbatim>\<open>error\<close> does: return nil, return an error, or panic.\<close>

datatype outcome = Nil | Err error | Panic panic

fun IsNotFound :: "error \<Rightarrow> bool" where
  "IsNotFound (NotFound _) = True"
| "IsNotFound _ = False"

subsection \<open>Calls to the collaborators\<close>

record FieldSelector =
  fs_nodeName :: string
  fs_phase :: string
  fs_notName :: string

record ListOptions =
  lo_LabelSelector :: "string \<rightharpoonup> string"
  lo_FieldSelector :: "FieldSelector option"

datatype event =
    EvGetSecret string string "error + (string \<rightharpoonup> string)"
  | EvGetDaemonSet DaemonSet "error + DaemonSet"
  | EvUpdateDaemonSet DaemonSet "error option"
  | EvCreateDaemonSet DaemonSet "error option"
  | EvNewClient string string string "error option"
  | EvGetVersionForLatest "error + string"
  | EvGetVersionForIp string "error + string"
  | EvListPods string ListOptions "error + Pod list"
  | EvDeletePod Pod "error option"
  | EvSleep nat
  | EvNow nat
  | EvUpdateOneAgent OneAgent "error option"

text \<open>
  The collaborators. Each function gets the calls made so far and the arguments of the
  call, and gives the reply: \<open>Inl\<close> or \<open>Some\<close> is an error. They stand for the
  operator SDK (\<^verbatim>\<open>query.Get\<close>, \<^verbatim>\<open>query.List\<close>, \<^verbatim>\<open>action.Create\<close>, \<^verbatim>\<open>action.Update\<close>,
  \<^verbatim>\<open>action.Delete\<close>), for the client of the version authority (package
  \<^verbatim>\<open>pkg/dynatrace-client\<close>, which is not among the sources: \<^verbatim>\<open>NewClient\<close>,
  \<^verbatim>\<open>GetVersionForLatest\<close> with its two constant arguments, \<^verbatim>\<open>GetVersionForIp\<close>) and for
  \<^verbatim>\<open>metav1.Now\<close>. A list query is identified by its namespace, its label selector and the
  three parts of its field selector, not by the strings the selectors are printed to.
\<close>

record collaborators =
  getSecret :: "event list \<Rightarrow> string \<Rightarrow> string \<Rightarrow> error + (string \<rightharpoonup> string)"
  getDaemonSetObject :: "event list \<Rightarrow> DaemonSet \<Rightarrow> error + DaemonSet"
  updateDaemonSet :: "event list \<Rightarrow> DaemonSet \<Rightarrow> error option"
  createDaemonSet :: "event list \<Rightarrow> DaemonSet \<Rightarrow> error option"
  newClient :: "event list \<Rightarrow> string \<Rightarrow> string \<Rightarrow> string \<Rightarrow> error option"
  getVersionForLatest :: "event list \<Rightarrow> error + string"
  getVersionForIp :: "event list \<Rightarrow> string \<Rightarrow> error + string"
  listPods :: "event list \<Rightarrow> string \<Rightarrow> ListOptions \<Rightarrow> error + Pod list"
  deletePod :: "event list \<Rightarrow> Pod \<Rightarrow> error option"
  now :: "event list \<Rightarrow> nat"
  updateOneAgent :: "event list \<Rightarrow> OneAgent \<Rightarrow> error option"

subsection \<open>deletePods and getPodReadyState\<close>

definition splayTimeSeconds :: "16 word" where
  "splayTimeSeconds = 10"

definition getLabels :: "OneAgent \<Rightarrow> (string \<rightharpoonup> string)" where
  "getLabels cr = [''dynatrace'' \<mapsto> ''oneagent'', ''oneagent'' \<mapsto> Name cr]"

fun getPodReadyState_loop :: "ContainerStatus list \<Rightarrow> bool \<Rightarrow> bool" where
  "getPodReadyState_loop [] ready = ready"
| "getPodReadyState_loop (c # cs) ready = getPodReadyState_loop cs (ready \<and> cs_Ready c)"

definition getPodReadyState :: "Pod \<Rightarrow> bool" where
  "getPodReadyState p = getPodReadyState_loop (pod_ContainerStatuses p) True"

text \<open>
  The poll loop of deletePods (lines 178 to 191), from the loop test on. \<open>splay\<close> is a
  \<^verbatim>\<open>uint16\<close> and its increment wraps, so the loop need not end: the result \<open>None\<close>
  is a loop that runs forever. Leaving the loop gives the variable \<^verbatim>\<open>status\<close>.
\<close>

partial_function (option) pollLoop ::
  "collaborators \<Rightarrow> OneAgent \<Rightarrow> ListOptions \<Rightarrow> 16 word \<Rightarrow> error option \<Rightarrow> event list
     \<Rightarrow> (outcome \<times> event list) option"
where
  "pollLoop env cr listOps splay status tr =
     (case WaitReadySeconds (Spec cr) of
        None \<Rightarrow> Some (Panic NilPointerDereference, tr)
      | Some wait \<Rightarrow>
          if splay < wait then
            (let tr1 = tr @ [EvSleep (unat splayTimeSeconds)];
                 reply = listPods env tr1 (Namespace cr) listOps;
                 tr2 = tr1 @ [EvListPods (Namespace cr) listOps reply]
             in case reply of
                  Inl err \<Rightarrow> pollLoop env cr listOps (splay + splayTimeSeconds) (Some err) tr2
                | Inr items \<Rightarrow>
                    if length items = 1 \<and> getPodReadyState (items ! 0) then Some (Nil, tr2)
                    else if length items > 1 then
                      pollLoop env cr listOps (splay + splayTimeSeconds)
                        (Some (TooManyPods (length items))) tr2
                    else pollLoop env cr listOps (splay + splayTimeSeconds) None tr2)
          else Some (case status of None \<Rightarrow> Nil | Some err \<Rightarrow> Err err, tr))"

definition podListOptions :: "OneAgent \<Rightarrow> Pod \<Rightarrow> ListOptions" where
  "podListOptions cr pod =
     \<lparr>lo_LabelSelector = getLabels cr,
      lo_FieldSelector = Some \<lparr>fs_nodeName = pod_NodeName pod, fs_phase = ''Running'',
                               fs_notName = pod_Name pod\<rparr>\<rparr>"

fun deletePods :: "collaborators \<Rightarrow> OneAgent \<Rightarrow> Pod list \<Rightarrow> event list
     \<Rightarrow> (outcome \<times> event list) option" where
  "deletePods env cr [] tr = Some (Nil, tr)"
| "deletePods env cr (pod # pods) tr =
     (let err = deletePod env tr pod;
          tr1 = tr @ [EvDeletePod pod err]
      in case err of
           Some e \<Rightarrow> Some (Err e, tr1)
         | None \<Rightarrow>
             (case pollLoop env cr (podListOptions cr pod) 0 None tr1 of
                None \<Rightarrow> None
              | Some (Nil, tr2) \<Rightarrow> deletePods env cr pods tr2
              | Some (status, tr2) \<Rightarrow> Some (status, tr2)))"

subsection \<open>getPodsToRestart\<close>

text \<open>
  The body of the loop of getPodsToRestart (lines 425 to 444) for one pod, given the reply
  of \<^verbatim>\<open>GetVersionForIp\<close>. A nil map of the status has no entry for any node.
\<close>

definition lookupItem :: "OneAgent \<Rightarrow> string \<Rightarrow> OneAgentInstance option" where
  "lookupItem oneagent node = (case Items (Status oneagent) of None \<Rightarrow> None | Some m \<Rightarrow> m node)"

definition processPod ::
  "OneAgent \<Rightarrow> Pod \<Rightarrow> error + string \<Rightarrow> Pod list \<times> (string \<rightharpoonup> OneAgentInstance)
     \<Rightarrow> Pod list \<times> (string \<rightharpoonup> OneAgentInstance)" where
  "processPod oneagent pod reply acc =
     (case acc of (doomedPods, instances) \<Rightarrow>
        (let item = \<lparr>PodName = pod_Name pod, inst_Version = ''''\<rparr>
         in case reply of
              Inl err \<Rightarrow>
                (let item1 = (case lookupItem oneagent (pod_NodeName pod) of
                                Some i \<Rightarrow> item\<lparr>inst_Version := inst_Version i\<rparr>
                              | None \<Rightarrow> item)
                 in (doomedPods, instances(pod_NodeName pod \<mapsto> item1)))
            | Inr ver \<Rightarrow>
                (let item1 = item\<lparr>inst_Version := ver\<rparr>;
                     doomedPods1 = (if ver \<noteq> Version (Status oneagent)
                                    then doomedPods @ [pod] else doomedPods)
                 in (doomedPods1, instances(pod_NodeName pod \<mapsto> item1)))))"

fun getPodsToRestart_loop ::
  "collaborators \<Rightarrow> OneAgent \<Rightarrow> Pod list \<Rightarrow> Pod list \<times> (string \<rightharpoonup> OneAgentInstance)
     \<Rightarrow> event list \<Rightarrow> Pod list \<times> (string \<rightharpoonup> OneAgentInstance) \<times> event list" where
  "getPodsToRestart_loop env oneagent [] acc tr = (fst acc, snd acc, tr)"
| "getPodsToRestart_loop env oneagent (pod # pods) acc tr =
     (let reply = getVersionForIp env tr (pod_HostIP pod)
      in getPodsToRestart_loop env oneagent pods (processPod oneagent pod reply acc)
           (tr @ [EvGetVersionForIp (pod_HostIP pod) reply]))"

definition getPodsToRestart ::
  "collaborators \<Rightarrow> OneAgent \<Rightarrow> Pod list \<Rightarrow> event list
     \<Rightarrow> Pod list \<times> (string \<rightharpoonup> OneAgentInstance) \<times> event list" where
  "getPodsToRestart env oneagent pods tr =
     getPodsToRestart_loop env oneagent pods ([], Map.empty) tr"

subsection \<open>The DaemonSet: hasSpecChanged, applyOneAgentSettings, applyOneAgentDefaults, upsertDaemonSet\<close>

text \<open>
  copyDaemonSetSpecToOneAgentSpec writes into \<^verbatim>\<open>cr\<close>; the model returns the written
  spec. \<^verbatim>\<open>Containers[0]\<close> panics on a DaemonSet without containers.
\<close>

definition copyDaemonSetSpecToOneAgentSpec :: "DaemonSetSpec \<Rightarrow> OneAgentSpec \<Rightarrow> panic + OneAgentSpec" where
  "copyDaemonSetSpecToOneAgentSpec ds cr =
     (let pspec = tpl_Spec (dss_Template ds);
          cr1 = (case ps_NodeSelector pspec of
                   None \<Rightarrow> cr | Some m \<Rightarrow> cr\<lparr>NodeSelector := Some m\<rparr>);
          cr2 = (case ps_Tolerations pspec of
                   None \<Rightarrow> cr1 | Some ts \<Rightarrow> cr1\<lparr>Tolerations := Some ts\<rparr>)
      in case ps_Containers pspec of
           [] \<Rightarrow> Inl IndexOutOfRange
         | c # cs \<Rightarrow>
             (let cr3 = cr2\<lparr>Image := c_Image c\<rparr>;
                  cr4 = (case c_Args c of None \<Rightarrow> cr3 | Some as \<Rightarrow> cr3\<lparr>Args := Some as\<rparr>);
                  cr5 = (case c_Env c of None \<Rightarrow> cr4 | Some es \<Rightarrow> cr4\<lparr>Env := Some es\<rparr>)
              in Inr cr5))"

definition hasSpecChanged :: "DaemonSetSpec \<Rightarrow> OneAgent \<Rightarrow> panic + bool" where
  "hasSpecChanged dsSpec cr =
     (case copyDaemonSetSpecToOneAgentSpec dsSpec (Spec cr) of
        Inl p \<Rightarrow> Inl p
      | Inr actualSpec \<Rightarrow> Inr (Spec cr \<noteq> actualSpec))"

definition applyOneAgentSettings :: "DaemonSet \<Rightarrow> OneAgent \<Rightarrow> panic + DaemonSet" where
  "applyOneAgentSettings ds cr =
     (let labels = getLabels cr;
          pspec = tpl_Spec (dss_Template (ds_Spec ds))
      in case ps_Containers pspec of
           [] \<Rightarrow> Inl IndexOutOfRange
         | c # cs \<Rightarrow>
             Inr (ds\<lparr>ds_Labels := Some labels,
                     ds_Spec := \<lparr>dss_Selector = Some labels,
                                 dss_Template = \<lparr>tpl_Labels = Some labels,
                                   tpl_Spec = pspec\<lparr>ps_NodeSelector := NodeSelector (Spec cr),
                                     ps_Tolerations := Tolerations (Spec cr),
                                     ps_Containers :=
                                       c\<lparr>c_Image := Image (Spec cr), c_Env := Env (Spec cr),
                                         c_Args := Args (Spec cr)\<rparr> # cs\<rparr>\<rparr>\<rparr>\<rparr>))"

definition applyOneAgentDefaults :: "DaemonSet \<Rightarrow> OneAgent \<Rightarrow> DaemonSet" where
  "applyOneAgentDefaults ds cr =
     ds\<lparr>ds_Spec :=
          \<lparr>dss_Selector = None,
           dss_Template = \<lparr>tpl_Labels = None,
             tpl_Spec = \<lparr>ps_Volumes = [(''host-root'', ''/'')],
               ps_NodeSelector = None,
               ps_ServiceAccountName = ''dynatrace-oneagent'',
               ps_HostNetwork = True, ps_HostPID = True, ps_HostIPC = True,
               ps_Tolerations = None,
               ps_Containers =
                 [\<lparr>c_Name = ''dynatrace-oneagent'', c_Image = '''', c_Args = None, c_Env = None,
                   c_ImagePullPolicy = ''Always'',
                   c_VolumeMounts = [(''host-root'', ''/mnt/root'')],
                   c_Privileged = Some True,
                   c_ReadinessProbe =
                     Some \<lparr>probe_ExecCommand = [''pgrep'', ''-f'', ''oneagentwatchdog''],
                           probe_InitialDelaySeconds = 30, probe_PeriodSeconds = 30\<rparr>\<rparr>]\<rparr>\<rparr>\<rparr>,
        ds_OwnerReferences := ds_OwnerReferences ds @
          [\<lparr>own_APIVersion = APIVersion cr, own_Kind = Kind cr, own_Name = Name cr,
            own_UID = UID cr, own_Controller = Some True, own_BlockOwnerDeletion = Some True\<rparr>]\<rparr>"

definition getDaemonSet :: "OneAgent \<Rightarrow> DaemonSet" where
  "getDaemonSet cr =
     \<lparr>ds_Name = Name cr, ds_Namespace = Namespace cr, ds_Labels = None, ds_OwnerReferences = [],
      ds_Spec = \<lparr>dss_Selector = None,
        dss_Template = \<lparr>tpl_Labels = None,
          tpl_Spec = \<lparr>ps_Volumes = [], ps_NodeSelector = None, ps_ServiceAccountName = '''',
            ps_HostNetwork = False, ps_HostPID = False, ps_HostIPC = False,
            ps_Tolerations = None, ps_Containers = []\<rparr>\<rparr>\<rparr>\<rparr>"

definition upsertDaemonSet :: "collaborators \<Rightarrow> OneAgent \<Rightarrow> event list \<Rightarrow> outcome \<times> event list" where
  "upsertDaemonSet env oa tr =
     (let ds0 = getDaemonSet oa;
          reply = getDaemonSetObject env tr ds0;
          tr1 = tr @ [EvGetDaemonSet ds0 reply]
      in case reply of
           Inr ds \<Rightarrow>
             (case hasSpecChanged (ds_Spec ds) oa of
                Inl p \<Rightarrow> (Panic p, tr1)
              | Inr False \<Rightarrow> (Nil, tr1)
              | Inr True \<Rightarrow>
                  (case applyOneAgentSettings ds oa of
                     Inl p \<Rightarrow> (Panic p, tr1)
                   | Inr ds1 \<Rightarrow>
                       (let err = updateDaemonSet env tr1 ds1;
                            tr2 = tr1 @ [EvUpdateDaemonSet ds1 err]
                        in case err of Some e \<Rightarrow> (Err e, tr2) | None \<Rightarrow> (Nil, tr2))))
         | Inl err \<Rightarrow>
             if IsNotFound err then
               (case applyOneAgentSettings (applyOneAgentDefaults ds0 oa) oa of
                  Inl p \<Rightarrow> (Panic p, tr1)
                | Inr ds1 \<Rightarrow>
                    (let err1 = createDaemonSet env tr1 ds1;
                         tr2 = tr1 @ [EvCreateDaemonSet ds1 err1]
                     in case err1 of Some e \<Rightarrow> (Err e, tr2) | None \<Rightarrow> (Nil, tr2)))
             else (Err err, tr1))"

subsection \<open>getSecretKey\<close>

definition getSecretKey :: "collaborators \<Rightarrow> OneAgent \<Rightarrow> string \<Rightarrow> event list
     \<Rightarrow> (error + string) \<times> event list" where
  "getSecretKey env cr key tr =
     (let reply = getSecret env tr (Namespace cr) (Tokens (Spec cr));
          tr1 = tr @ [EvGetSecret (Namespace cr) (Tokens (Spec cr)) reply]
      in case reply of
           Inl err \<Rightarrow> (Inl err, tr1)
         | Inr data \<Rightarrow>
             (case data key of
                None \<Rightarrow> (Inl (MissingKey (Tokens (Spec cr)) key), tr1)
              | Some v \<Rightarrow> (Inr v, tr1)))"

subsection \<open>Handle\<close>

text \<open>
  Handle is one function in the source; the model cuts it into its blocks, each named by
  what it does and given with its lines, and each later stage is the rest of the function
  from its first line on. The variables that live across blocks are the resource
  \<^verbatim>\<open>oneagent\<close> (written in place by the source), the flag \<^verbatim>\<open>updateStatus\<close> and
  the calls made so far.
\<close>

text \<open>Lines 50 to 54: the default of \<^verbatim>\<open>.spec.tokens\<close>.\<close>

definition defaultTokens :: "OneAgent \<times> bool \<Rightarrow> OneAgent \<times> bool" where
  "defaultTokens st =
     (case st of (oneagent, updateStatus) \<Rightarrow>
        if Tokens (Spec oneagent) = ''''
        then (oneagent\<lparr>Spec := (Spec oneagent)\<lparr>Tokens := Name oneagent\<rparr>\<rparr>, True)
        else (oneagent, updateStatus))"

text \<open>Lines 68 to 78: the environment entry of the installer token, put first.\<close>

definition installerTokenEnvVar :: "string \<Rightarrow> EnvVar" where
  "installerTokenEnvVar tokens =
     \<lparr>env_Name = ''ONEAGENT_INSTALLER_TOKEN'', env_Value = '''',
      env_ValueFrom = Some \<lparr>FieldRef = None, ResourceFieldRef = None, ConfigMapKeyRef = None,
        SecretKeyRef = Some \<lparr>sks_Name = tokens, sks_Key = ''paasToken'', sks_Optional = None\<rparr>\<rparr>\<rparr>"

definition ensureInstallerToken :: "OneAgent \<times> bool \<Rightarrow> panic + OneAgent \<times> bool" where
  "ensureInstallerToken st =
     (case st of (oneagent, updateStatus) \<Rightarrow>
        (case Env (Spec oneagent) of
           None \<Rightarrow> Inl IndexOutOfRange
         | Some [] \<Rightarrow> Inl IndexOutOfRange
         | Some (e # es) \<Rightarrow>
             if env_Name e \<noteq> ''ONEAGENT_INSTALLER_TOKEN''
             then Inr (oneagent\<lparr>Spec := (Spec oneagent)
                         \<lparr>Env := Some (installerTokenEnvVar (Tokens (Spec oneagent)) # e # es)\<rparr>\<rparr>,
                       True)
             else Inr (oneagent, updateStatus)))"

text \<open>Lines 101 to 105: a new desired version, taken over into the status.\<close>

definition setDesiredVersion :: "string \<Rightarrow> OneAgent \<times> bool \<Rightarrow> OneAgent \<times> bool" where
  "setDesiredVersion desired st =
     (case st of (oneagent, updateStatus) \<Rightarrow>
        if desired \<noteq> '''' \<and> Version (Status oneagent) \<noteq> desired
        then (oneagent\<lparr>Status := (Status oneagent)\<lparr>Version := desired\<rparr>\<rparr>, True)
        else (oneagent, updateStatus))"

text \<open>Lines 132 to 144: the status update and the return.\<close>

definition Handle_updateStatus ::
  "collaborators \<Rightarrow> OneAgent \<Rightarrow> bool \<Rightarrow> event list \<Rightarrow> outcome \<times> OneAgent \<times> event list" where
  "Handle_updateStatus env oneagent updateStatus tr =
     (if updateStatus then
        (let t = now env tr;
             tr1 = tr @ [EvNow t];
             oneagent1 = oneagent\<lparr>Status := (Status oneagent)\<lparr>UpdatedTimestamp := t\<rparr>\<rparr>;
             err = updateOneAgent env tr1 oneagent1;
             tr2 = tr1 @ [EvUpdateOneAgent oneagent1 err]
         in case err of Some e \<Rightarrow> (Err e, oneagent1, tr2) | None \<Rightarrow> (Nil, oneagent1, tr2))
      else (Nil, oneagent, tr))"

text \<open>Lines 107 to 130, then the rest: the pods, their versions, the restart.\<close>

definition Handle_restart ::
  "collaborators \<Rightarrow> OneAgent \<Rightarrow> bool \<Rightarrow> event list \<Rightarrow> (outcome \<times> OneAgent \<times> event list) option" where
  "Handle_restart env oneagent updateStatus tr =
     (let listOps = \<lparr>lo_LabelSelector = getLabels oneagent, lo_FieldSelector = None\<rparr>;
          reply = listPods env tr (Namespace oneagent) listOps;
          tr1 = tr @ [EvListPods (Namespace oneagent) listOps reply]
      in case reply of
           Inl err \<Rightarrow> Some (Err err, oneagent, tr1)
         | Inr items \<Rightarrow>
             (case getPodsToRestart env oneagent items tr1 of
                (podsToDelete, instances, tr2) \<Rightarrow>
                  (let changed = (Some instances \<noteq> Items (Status oneagent));
                       updateStatus1 = (if changed then True else updateStatus);
                       oneagent1 = (if changed
                                    then oneagent\<lparr>Status := (Status oneagent)\<lparr>Items := Some instances\<rparr>\<rparr>
                                    else oneagent)
                   in case deletePods env oneagent1 podsToDelete tr2 of
                        None \<Rightarrow> None
                      | Some (Nil, tr3) \<Rightarrow> Some (Handle_updateStatus env oneagent1 updateStatus1 tr3)
                      | Some (failed, tr3) \<Rightarrow> Some (failed, oneagent1, tr3))))"

text \<open>Lines 94 to 105, then the rest: the desired version.\<close>

definition Handle_version ::
  "collaborators \<Rightarrow> OneAgent \<Rightarrow> bool \<Rightarrow> event list \<Rightarrow> (outcome \<times> OneAgent \<times> event list) option" where
  "Handle_version env oneagent updateStatus tr =
     (let reply = getVersionForLatest env tr;
          tr1 = tr @ [EvGetVersionForLatest reply]
      in case reply of
           Inl err \<Rightarrow> Some (Nil, oneagent, tr1)
         | Inr desired \<Rightarrow>
             (case setDesiredVersion desired (oneagent, updateStatus) of
                (oneagent1, updateStatus1) \<Rightarrow> Handle_restart env oneagent1 updateStatus1 tr1))"

text \<open>Lines 80 to 92, then the rest: the DaemonSet and the client of the version authority.\<close>

definition Handle_deploy ::
  "collaborators \<Rightarrow> OneAgent \<Rightarrow> bool \<Rightarrow> string \<Rightarrow> string \<Rightarrow> event list
     \<Rightarrow> (outcome \<times> OneAgent \<times> event list) option" where
  "Handle_deploy env oneagent updateStatus apiToken paasToken tr =
     (case upsertDaemonSet env oneagent tr of
        (Nil, tr1) \<Rightarrow>
          (let err = newClient env tr1 (ApiUrl (Spec oneagent)) apiToken paasToken;
               tr2 = tr1 @ [EvNewClient (ApiUrl (Spec oneagent)) apiToken paasToken err]
           in case err of
                Some e \<Rightarrow> Some (Err e, oneagent, tr2)
              | None \<Rightarrow> Handle_version env oneagent updateStatus tr2)
      | (failed, tr1) \<Rightarrow> Some (failed, oneagent, tr1))"

text \<open>Lines 38 to 78, then the rest: the case of a OneAgent object.\<close>

definition Handle_OneAgent ::
  "collaborators \<Rightarrow> OneAgent \<Rightarrow> bool \<Rightarrow> (outcome \<times> OneAgent \<times> event list) option" where
  "Handle_OneAgent env oneagent deleted =
     (if deleted then Some (Nil, oneagent, [])
      else
        (case defaultTokens (oneagent, False) of (oneagent1, updateStatus1) \<Rightarrow>
           (case getSecretKey env oneagent1 ''paasToken'' [] of
              (Inl err, tr1) \<Rightarrow> Some (Err err, oneagent1, tr1)
            | (Inr paasToken, tr1) \<Rightarrow>
                (case getSecretKey env oneagent1 ''apiToken'' tr1 of
                   (Inl err, tr2) \<Rightarrow> Some (Err err, oneagent1, tr2)
                 | (Inr apiToken, tr2) \<Rightarrow>
                     (case ensureInstallerToken (oneagent1, updateStatus1) of
                        Inl p \<Rightarrow> Some (Panic p, oneagent1, tr2)
                      | Inr (oneagent2, updateStatus2) \<Rightarrow>
                          Handle_deploy env oneagent2 updateStatus2 apiToken paasToken tr2)))))"

datatype Object = OneAgentObject OneAgent | OtherObject

record Event =
  Object :: Object
  Deleted :: bool

definition Handle :: "collaborators \<Rightarrow> Event \<Rightarrow> (outcome \<times> Object \<times> event list) option" where
  "Handle env event =
     (case Object event of
        OneAgentObject o1 \<Rightarrow>
          (case Handle_OneAgent env o1 (Deleted event) of
             None \<Rightarrow> None
           | Some (r, oneagent, tr) \<Rightarrow> Some (r, OneAgentObject oneagent, tr))
      | OtherObject \<Rightarrow> Some (Nil, OtherObject, []))"

section \<open>Reading a pass off its calls\<close>

text \<open>
  The properties below are about what a pass did: which pods it deleted, how often it
  polled, what the version authority answered. They are read off the list of calls.
\<close>

fun isDeletePod :: "event \<Rightarrow> bool" where
  "isDeletePod (EvDeletePod pod err) = True"
| "isDeletePod _ = False"

fun deletedPod :: "event \<Rightarrow> Pod option" where
  "deletedPod (EvDeletePod pod err) = Some pod"
| "deletedPod _ = None"

text \<open>The pods whose deletion was issued, in the order of the calls.\<close>

definition deletions :: "event list \<Rightarrow> Pod list" where
  "deletions tr = List.map_filter deletedPod tr"

text \<open>A poll tick of deletePods is its query for the replacement (the one with a field selector).\<close>

fun isPollTick :: "event \<Rightarrow> bool" where
  "isPollTick (EvListPods ns listOps reply) = (lo_FieldSelector listOps \<noteq> None)"
| "isPollTick _ = False"

definition pollTicks :: "event list \<Rightarrow> nat" where
  "pollTicks tr = length (filter isPollTick tr)"

text \<open>A tick that confirms the replacement: exactly one pod, all of its containers ready.\<close>

fun confirmedTick :: "event \<Rightarrow> bool" where
  "confirmedTick (EvListPods ns listOps (Inr items)) =
     (length items = 1 \<and> getPodReadyState (items ! 0))"
| "confirmedTick _ = False"

text \<open>A call that sets an error: a failed deletion, a failed query, a query with several pods.\<close>

fun failedCall :: "event \<Rightarrow> bool" where
  "failedCall (EvDeletePod pod err) = (err \<noteq> None)"
| "failedCall (EvListPods ns listOps (Inl err)) = True"
| "failedCall (EvListPods ns listOps (Inr items)) = (length items > 1)"
| "failedCall _ = False"


text \<open>
  The condition deletePods keeps between two deletions. \<open>countTick\<close> counts the poll ticks
  since the last deletion. A call lets the next deletion go ahead (\<open>mayProceed\<close>) when it
  did not fail and is either a poll tick that confirmed the replacement, or the call that
  completes the ticks of the budget: the last of \<open>ticks\<close> poll ticks, or, with a budget
  of no tick at all, the deletion itself. \<open>budgetGated ticks k\<close>: every deletion but the
  first call comes directly after such a call, \<open>k\<close> being the ticks counted so far.
\<close>

definition countTick :: "nat \<Rightarrow> event \<Rightarrow> nat" where
  "countTick k e = (if isDeletePod e then 0 else if isPollTick e then Suc k else k)"

definition mayProceed :: "nat \<Rightarrow> nat \<Rightarrow> event \<Rightarrow> bool" where
  "mayProceed ticks k e =
     (\<not> failedCall e
      \<and> (isPollTick e \<and> confirmedTick e \<or> k = ticks \<and> (isPollTick e \<or> isDeletePod e)))"

fun budgetGated :: "nat \<Rightarrow> nat \<Rightarrow> event list \<Rightarrow> bool" where
  "budgetGated ticks k (e1 # e2 # es) =
     ((isDeletePod e2 \<longrightarrow> mayProceed ticks (countTick k e1) e1)
      \<and> budgetGated ticks (countTick k e1) (e2 # es))"
| "budgetGated ticks k es = True"

fun isUpdateOneAgent :: "event \<Rightarrow> bool" where
  "isUpdateOneAgent (EvUpdateOneAgent oneagent err) = True"
| "isUpdateOneAgent _ = False"

fun lookupReply :: "event \<Rightarrow> (error + string) option" where
  "lookupReply (EvGetVersionForIp ip reply) = Some reply"
| "lookupReply _ = None"

text \<open>The replies to the installed-version lookups, in the order of the calls.\<close>

definition lookupReplies :: "event list \<Rightarrow> (error + string) list" where
  "lookupReplies tr = List.map_filter lookupReply tr"

text \<open>The query of Handle for the live pods of the resource (line 111), with its reply.\<close>

definition podQuery :: "OneAgent \<Rightarrow> error + Pod list \<Rightarrow> event" where
  "podQuery oneagent reply =
     EvListPods (Namespace oneagent)
       \<lparr>lo_LabelSelector = getLabels oneagent, lo_FieldSelector = None\<rparr> reply"

text \<open>The calls of the three parts of a pass: before the desired version is asked for,
  inside the poll loop, and after the live pods are known.\<close>

fun isSetupEvent :: "event \<Rightarrow> bool" where
  "isSetupEvent (EvGetSecret ns name reply) = True"
| "isSetupEvent (EvGetDaemonSet ds reply) = True"
| "isSetupEvent (EvUpdateDaemonSet ds err) = True"
| "isSetupEvent (EvCreateDaemonSet ds err) = True"
| "isSetupEvent (EvNewClient url apiToken paasToken err) = True"
| "isSetupEvent _ = False"

fun isPollEvent :: "event \<Rightarrow> bool" where
  "isPollEvent (EvSleep n) = True"
| "isPollEvent (EvListPods ns listOps reply) = (lo_FieldSelector listOps \<noteq> None)"
| "isPollEvent _ = False"

definition isRestartEvent :: "event \<Rightarrow> bool" where
  "isRestartEvent e = (isPollEvent e \<or> isDeletePod e)"

fun isLateEvent :: "event \<Rightarrow> bool" where
  "isLateEvent (EvGetVersionForIp ip reply) = True"
| "isLateEvent (EvDeletePod pod err) = True"
| "isLateEvent (EvSleep n) = True"
| "isLateEvent (EvListPods ns listOps reply) = (lo_FieldSelector listOps \<noteq> None)"
| "isLateEvent (EvNow t) = True"
| "isLateEvent (EvUpdateOneAgent oneagent err) = True"
| "isLateEvent _ = False"

subsection \<open>The statements of the specification, in its words\<close>

text \<open>
  Retirement gating as the code has it: the lookup succeeded and the version differs from
  the target. The specification asks in addition that the version be non-empty.
\<close>

definition retire :: "OneAgent \<Rightarrow> error + string \<Rightarrow> bool" where
  "retire oneagent reply =
     (case reply of Inl err \<Rightarrow> False | Inr ver \<Rightarrow> ver \<noteq> Version (Status oneagent))"

definition retireNonEmpty :: "OneAgent \<Rightarrow> error + string \<Rightarrow> bool" where
  "retireNonEmpty oneagent reply =
     (case reply of Inl err \<Rightarrow> False
      | Inr ver \<Rightarrow> ver \<noteq> '''' \<and> ver \<noteq> Version (Status oneagent))"

text \<open>
  Fallback correctness: the record of an instance whose lookup failed carries the version
  of the prior record of its node, or the empty string when there is none.
\<close>

definition fallbackInstance :: "OneAgent \<Rightarrow> Pod \<Rightarrow> OneAgentInstance" where
  "fallbackInstance oneagent pod =
     \<lparr>PodName = pod_Name pod,
      inst_Version = (case lookupItem oneagent (pod_NodeName pod) of
                        Some prior \<Rightarrow> inst_Version prior | None \<Rightarrow> '''')\<rparr>"


text \<open>The target version after the authority has answered \<open>desired\<close>.\<close>

definition targetAfter :: "OneAgent \<Rightarrow> string \<Rightarrow> string" where
  "targetAfter oneagent desired =
     (if desired \<noteq> '''' \<and> Version (Status oneagent) \<noteq> desired then desired
      else Version (Status oneagent))"



text \<open>Applying the injection of the installer token twice.\<close>

definition ensureInstallerTokenTwice :: "OneAgent \<times> bool \<Rightarrow> panic + OneAgent \<times> bool" where
  "ensureInstallerTokenTwice st =
     (case ensureInstallerToken st of Inl p \<Rightarrow> Inl p | Inr st1 \<Rightarrow> ensureInstallerToken st1)"

subsection \<open>A cluster of two nodes, for the examples\<close>

definition podN1 :: Pod where
  "podN1 = \<lparr>pod_Name = ''oneagent-7xk2p'', pod_NodeName = ''n1'', pod_HostIP = ''10.0.0.1'',
     pod_ContainerStatuses = [\<lparr>cs_Name = ''dynatrace-oneagent'', cs_Ready = True\<rparr>]\<rparr>"

definition podN2 :: Pod where
  "podN2 = \<lparr>pod_Name = ''oneagent-q9f4d'', pod_NodeName = ''n2'', pod_HostIP = ''10.0.0.2'',
     pod_ContainerStatuses = [\<lparr>cs_Name = ''dynatrace-oneagent'', cs_Ready = True\<rparr>]\<rparr>"

definition agentSpec :: OneAgentSpec where
  "agentSpec = \<lparr>ApiUrl = ''https://tenant.example/api'', SkipCertCheck = False,
     NodeSelector = Some [''zone'' \<mapsto> ''a''], Tolerations = None,
     Image = ''dynatrace/oneagent'', Tokens = ''oneagent'', WaitReadySeconds = Some 15,
     Args = None,
     Env = Some [\<lparr>env_Name = ''ONEAGENT_INSTALLER_SCRIPT_URL'',
                  env_Value = ''https://tenant.example/installer'', env_ValueFrom = None\<rparr>]\<rparr>"

text \<open>A resource with no status yet, and one that has seen node n1 on version 1.1.0.\<close>

definition agent0 :: OneAgent where
  "agent0 = \<lparr>APIVersion = ''dynatrace.com/v1alpha1'', Kind = ''OneAgent'', Name = ''oneagent'',
     Namespace = ''dynatrace'', UID = ''5c1f'', Spec = agentSpec,
     Status = \<lparr>Version = ''1.2.0'', Items = None, UpdatedTimestamp = 0\<rparr>\<rparr>"

definition agent1 :: OneAgent where
  "agent1 = agent0\<lparr>Status := \<lparr>Version = ''1.2.0'',
     Items = Some [''n1'' \<mapsto> \<lparr>PodName = ''oneagent-7xk2p'', inst_Version = ''1.1.0''\<rparr>],
     UpdatedTimestamp = 7\<rparr>\<rparr>"

text \<open>
  A cluster in which every call succeeds, node n1 runs version 1.1.0, node n2 runs the
  recommended 1.2.0, and no replacement pod ever shows up in a poll.
\<close>

definition stalledCluster :: collaborators where
  "stalledCluster =
     \<lparr>getSecret = (\<lambda>tr ns name. Inr [''paasToken'' \<mapsto> ''p-token'', ''apiToken'' \<mapsto> ''a-token'']),
      getDaemonSetObject = (\<lambda>tr ds. Inl (NotFound ''daemonsets'')),
      updateDaemonSet = (\<lambda>tr ds. None),
      createDaemonSet = (\<lambda>tr ds. None),
      newClient = (\<lambda>tr url apiToken paasToken. None),
      getVersionForLatest = (\<lambda>tr. Inr ''1.2.0''),
      getVersionForIp = (\<lambda>tr ip. if ip = ''10.0.0.1'' then Inr ''1.1.0'' else Inr ''1.2.0''),
      listPods = (\<lambda>tr ns listOps.
         case lo_FieldSelector listOps of None \<Rightarrow> Inr [podN1, podN2] | Some f \<Rightarrow> Inr []),
      deletePod = (\<lambda>tr pod. None),
      now = (\<lambda>tr. 42),
      updateOneAgent = (\<lambda>tr oneagent. None)\<rparr>"

text \<open>The version authority is down; it answers with the empty string; no host is known to it.\<close>

definition authorityDown :: collaborators where
  "authorityDown = stalledCluster\<lparr>getVersionForLatest := (\<lambda>tr. Inl (ApiError ''unreachable''))\<rparr>"

definition authorityEmpty :: collaborators where
  "authorityEmpty = stalledCluster\<lparr>getVersionForLatest := (\<lambda>tr. Inr '''')\<rparr>"

definition hostsUnknown :: collaborators where
  "hostsUnknown = stalledCluster\<lparr>getVersionForIp := (\<lambda>tr ip. Inl (ApiError ''no agent found for host''))\<rparr>"

definition hostsBlank :: collaborators where
  "hostsBlank = stalledCluster\<lparr>getVersionForIp := (\<lambda>tr ip. Inr '''')\<rparr>"



subsection \<open>More of the example cluster\<close>


text \<open>A resource whose status still has the target version 1.1.0.\<close>

definition agentOld :: OneAgent where
  "agentOld = agent0\<lparr>Status := \<lparr>Version = ''1.1.0'', Items = None, UpdatedTimestamp = 0\<rparr>\<rparr>"

text \<open>The resource \<open>agent0\<close> after the installer token was injected.\<close>

definition agentReady :: OneAgent where
  "agentReady = agent0\<lparr>Spec := agentSpec\<lparr>Env := Some [installerTokenEnvVar ''oneagent'',
       \<lparr>env_Name = ''ONEAGENT_INSTALLER_SCRIPT_URL'',
        env_Value = ''https://tenant.example/installer'', env_ValueFrom = None\<rparr>]\<rparr>\<rparr>"

text \<open>The event of a change of a resource.\<close>

definition passEvent :: "OneAgent \<Rightarrow> Event" where
  "passEvent oneagent = \<lparr>Object = OneAgentObject oneagent, Deleted = False\<rparr>"

section \<open>Properties\<close>

subsection \<open>The poll loop and deletePods\<close>

lemma pollLoop_events_aux:
  "pollLoop env cr listOps splay status tr = Some y \<Longrightarrow>
     lo_FieldSelector listOps \<noteq> None \<longrightarrow> (\<exists>new. snd y = tr @ new \<and> list_all isPollEvent new)"
proof (erule pollLoop.raw_induct[rotated], goal_cases)
  case (1 pollLoop' env cr listOps splay status tr y)
  show ?case
  proof
    assume fs: "lo_FieldSelector listOps \<noteq> None"
    show "\<exists>new. snd y = tr @ new \<and> list_all isPollEvent new"
    proof (cases "WaitReadySeconds (Spec cr)")
      case None
      with 1(2) show ?thesis by auto
    next
      case (Some wait)
      show ?thesis
      proof (cases "splay < wait")
        case False
        with Some 1(2) show ?thesis by auto
      next
        case True
        define tr2 where "tr2 = (tr @ [EvSleep (unat splayTimeSeconds)]) @
           [EvListPods (Namespace cr) listOps (listPods env (tr @ [EvSleep (unat splayTimeSeconds)]) (Namespace cr) listOps)]"
        have "(\<exists>st. pollLoop' env cr listOps (splay + splayTimeSeconds) st tr2 = Some y) \<or> snd y = tr2"
          using 1(2) Some True unfolding tr2_def
          by (auto simp: Let_def split: sum.splits if_splits)
        then show ?thesis
        proof
          assume "\<exists>st. pollLoop' env cr listOps (splay + splayTimeSeconds) st tr2 = Some y"
          then obtain st where "pollLoop' env cr listOps (splay + splayTimeSeconds) st tr2 = Some y" ..
          from 1(1)[OF this] fs obtain new where "snd y = tr2 @ new" "list_all isPollEvent new" by blast
          then show ?thesis using fs by (auto simp: tr2_def)
        next
          assume "snd y = tr2"
          then show ?thesis using fs by (auto simp: tr2_def)
        qed
      qed
    qed
  qed
qed

lemma pollLoop_events:
  assumes "pollLoop env cr listOps splay status tr = Some (r, tr')"
    and "lo_FieldSelector listOps \<noteq> None"
  shows "\<exists>new. tr' = tr @ new \<and> list_all isPollEvent new"
  using pollLoop_events_aux[OF assms(1)] assms(2) by simp











lemma podListOptions_field [simp]: "lo_FieldSelector (podListOptions cr pod) \<noteq> None"
  by (simp add: podListOptions_def)

lemma deletePods_Cons:
  "deletePods env cr (pod # pods) tr =
     (case deletePod env tr pod of
        Some e \<Rightarrow> Some (Err e, tr @ [EvDeletePod pod (Some e)])
      | None \<Rightarrow>
          (case pollLoop env cr (podListOptions cr pod) 0 None (tr @ [EvDeletePod pod None]) of
             None \<Rightarrow> None
           | Some (Nil, tr2) \<Rightarrow> deletePods env cr pods tr2
           | Some (status, tr2) \<Rightarrow> Some (status, tr2)))"
  by (simp add: Let_def split: option.splits)

lemma deletePods_events:
  "deletePods env cr pods tr = Some (r, tr') \<Longrightarrow> \<exists>new. tr' = tr @ new \<and> list_all isRestartEvent new"
proof (induction pods arbitrary: tr)
  case Nil
  then show ?case by simp
next
  case (Cons pod pods)
  show ?case
  proof (cases "deletePod env tr pod")
    case (Some e)
    with Cons.prems show ?thesis
      by (auto simp: deletePods_Cons isRestartEvent_def)
  next
    case None
    let ?tr1 = "tr @ [EvDeletePod pod None]"
    from Cons.prems None obtain r1 tr2 where
      poll: "pollLoop env cr (podListOptions cr pod) 0 None ?tr1 = Some (r1, tr2)"
      by (auto simp: deletePods_Cons split: option.splits)
    from pollLoop_events[OF poll] obtain new1 where
      new1: "tr2 = ?tr1 @ new1" "list_all isPollEvent new1" by auto
    have ev1: "list_all isRestartEvent (EvDeletePod pod None # new1)"
      using new1(2) by (auto simp: isRestartEvent_def list_all_iff)
    show ?thesis
    proof (cases "r1 = Nil")
      case True
      with Cons.prems None poll have "deletePods env cr pods tr2 = Some (r, tr')"
        by (simp add: deletePods_Cons)
      from Cons.IH[OF this] obtain new2 where "tr' = tr2 @ new2" "list_all isRestartEvent new2" by blast
      then show ?thesis using new1(1) ev1
        by (intro exI[of _ "EvDeletePod pod None # new1 @ new2"]) simp
    next
      case False
      with Cons.prems None poll have "tr' = tr2"
        by (cases r1) (auto simp: deletePods_Cons)
      then show ?thesis using new1(1) ev1
        by (intro exI[of _ "EvDeletePod pod None # new1"]) simp
    qed
  qed
qed








lemma budgetGated_needs_polls:
  "\<not> budgetGated 2 0 [EvDeletePod podN1 None, EvDeletePod podN2 None]"
  by (simp add: mayProceed_def countTick_def)

subsection \<open>getPodsToRestart\<close>

lemma processPod_fst:
  "fst (processPod oa pod reply (d, m)) = (if retire oa reply then d @ [pod] else d)"
  by (simp add: processPod_def retire_def Let_def split: sum.splits)

lemma processPod_dom:
  "dom (snd (processPod oa pod reply (d, m))) = insert (pod_NodeName pod) (dom m)"
  by (auto simp: processPod_def Let_def split: sum.splits option.splits)

lemma processPod_other:
  "node \<noteq> pod_NodeName pod \<Longrightarrow> snd (processPod oa pod reply (d, m)) node = m node"
  by (auto simp: processPod_def Let_def split: sum.splits option.splits)

lemma processPod_failed:
  "snd (processPod oa pod (Inl err) (d, m)) (pod_NodeName pod) = Some (fallbackInstance oa pod)"
  by (auto simp: processPod_def fallbackInstance_def Let_def split: option.splits)

lemma lookupReplies_append: "lookupReplies (a @ b) = lookupReplies a @ lookupReplies b"
  by (simp add: lookupReplies_def map_filter_def)

lemma loop_shape:
  "getPodsToRestart_loop env oa pods (d, m) tr = (d', m', tr') \<Longrightarrow>
     \<exists>new. tr' = tr @ new \<and> list_all isLateEvent new
       \<and> length (lookupReplies new) = length pods
       \<and> d' = d @ map fst (filter (\<lambda>(pod, reply). retire oa reply) (zip pods (lookupReplies new)))
       \<and> dom m' = dom m \<union> pod_NodeName ` set pods
       \<and> (\<forall>node. node \<notin> pod_NodeName ` set pods \<longrightarrow> m' node = m node)
       \<and> (\<forall>i err. i < length pods \<and> lookupReplies new ! i = Inl err
             \<and> (\<forall>j. i < j \<and> j < length pods \<longrightarrow> pod_NodeName (pods ! j) \<noteq> pod_NodeName (pods ! i))
             \<longrightarrow> m' (pod_NodeName (pods ! i)) = Some (fallbackInstance oa (pods ! i)))"
proof (induction pods arbitrary: d m tr)
  case Nil
  then show ?case by (auto simp: lookupReplies_def map_filter_def)
next
  case (Cons pod pods)
  define reply where "reply = getVersionForIp env tr (pod_HostIP pod)"
  define ev where "ev = EvGetVersionForIp (pod_HostIP pod) reply"
  obtain d1 m1 where step: "processPod oa pod reply (d, m) = (d1, m1)" by (cases "processPod oa pod reply (d, m)")
  have d1: "d1 = (if retire oa reply then d @ [pod] else d)"
    using processPod_fst[of oa pod reply d m] step by simp
  have dom1: "dom m1 = insert (pod_NodeName pod) (dom m)"
    using processPod_dom[of oa pod reply d m] step by simp
  have other1: "\<And>node. node \<noteq> pod_NodeName pod \<Longrightarrow> m1 node = m node"
    using processPod_other[of _ pod oa reply d m] step by simp
  have failed1: "m1 (pod_NodeName pod) = Some (fallbackInstance oa pod)" if "reply = Inl err" for err
    using processPod_failed[of oa pod err d m] step that by simp
  from Cons.prems have "getPodsToRestart_loop env oa pods (d1, m1) (tr @ [ev]) = (d', m', tr')"
    by (simp add: Let_def reply_def ev_def step[unfolded reply_def])
  from Cons.IH[OF this] obtain new where
    tr': "tr' = (tr @ [ev]) @ new" and late: "list_all isLateEvent new"
    and len: "length (lookupReplies new) = length pods"
    and d': "d' = d1 @ map fst (filter (\<lambda>(pod, reply). retire oa reply) (zip pods (lookupReplies new)))"
    and dom': "dom m' = dom m1 \<union> pod_NodeName ` set pods"
    and other': "\<forall>node. node \<notin> pod_NodeName ` set pods \<longrightarrow> m' node = m1 node"
    and failed': "\<forall>i err. i < length pods \<and> lookupReplies new ! i = Inl err
             \<and> (\<forall>j. i < j \<and> j < length pods \<longrightarrow> pod_NodeName (pods ! j) \<noteq> pod_NodeName (pods ! i))
             \<longrightarrow> m' (pod_NodeName (pods ! i)) = Some (fallbackInstance oa (pods ! i))"
    by blast
  have rep: "lookupReplies (ev # new) = reply # lookupReplies new"
    by (simp add: lookupReplies_def map_filter_def ev_def)
  have "tr' = tr @ (ev # new)" using tr' by simp
  moreover have "list_all isLateEvent (ev # new)" using late by (simp add: ev_def)
  moreover have "length (lookupReplies (ev # new)) = length (pod # pods)" using rep len by simp
  moreover have "d' = d @ map fst (filter (\<lambda>(pod, reply). retire oa reply) (zip (pod # pods) (lookupReplies (ev # new))))"
    using d' d1 rep by simp
  moreover have "dom m' = dom m \<union> pod_NodeName ` set (pod # pods)" using dom' dom1 by auto
  moreover have "\<forall>node. node \<notin> pod_NodeName ` set (pod # pods) \<longrightarrow> m' node = m node"
    using other' other1 by auto
  moreover have "\<forall>i err. i < length (pod # pods) \<and> lookupReplies (ev # new) ! i = Inl err
             \<and> (\<forall>j. i < j \<and> j < length (pod # pods) \<longrightarrow> pod_NodeName ((pod # pods) ! j) \<noteq> pod_NodeName ((pod # pods) ! i))
             \<longrightarrow> m' (pod_NodeName ((pod # pods) ! i)) = Some (fallbackInstance oa ((pod # pods) ! i))"
  proof (intro allI impI, elim conjE)
    fix i err
    assume i: "i < length (pod # pods)" and fail: "lookupReplies (ev # new) ! i = Inl err"
      and last: "\<forall>j. i < j \<and> j < length (pod # pods) \<longrightarrow> pod_NodeName ((pod # pods) ! j) \<noteq> pod_NodeName ((pod # pods) ! i)"
    show "m' (pod_NodeName ((pod # pods) ! i)) = Some (fallbackInstance oa ((pod # pods) ! i))"
    proof (cases i)
      case 0
      have "pod_NodeName pod \<notin> pod_NodeName ` set pods"
      proof
        assume "pod_NodeName pod \<in> pod_NodeName ` set pods"
        then obtain k where "k < length pods" "pod_NodeName (pods ! k) = pod_NodeName pod"
          by (auto simp: in_set_conv_nth)
        with last[rule_format, of "Suc k"] 0 show False by simp
      qed
      then have "m' (pod_NodeName pod) = m1 (pod_NodeName pod)" using other' by simp
      moreover have "reply = Inl err" using fail 0 rep by simp
      ultimately show ?thesis using failed1 0 by simp
    next
      case (Suc k)
      have "k < length pods" using i Suc by simp
      moreover have "lookupReplies new ! k = Inl err" using fail Suc rep by simp
      moreover have "\<forall>j. k < j \<and> j < length pods \<longrightarrow> pod_NodeName (pods ! j) \<noteq> pod_NodeName (pods ! k)"
      proof (intro allI impI)
        fix j assume "k < j \<and> j < length pods"
        with last[rule_format, of "Suc j"] Suc show "pod_NodeName (pods ! j) \<noteq> pod_NodeName (pods ! k)" by simp
      qed
      ultimately show ?thesis using failed' Suc by simp
    qed
  qed
  ultimately show ?case by blast
qed

lemma loop_calls:
  "getPodsToRestart_loop env oa pods acc tr = (d', m', tr') \<Longrightarrow>
     drop (length tr) tr' = map2 (\<lambda>pod reply. EvGetVersionForIp (pod_HostIP pod) reply) pods
        (lookupReplies (drop (length tr) tr'))"
proof (induction pods arbitrary: acc tr)
  case Nil
  then show ?case by (simp add: lookupReplies_def map_filter_def)
next
  case (Cons pod pods)
  define ev where "ev = EvGetVersionForIp (pod_HostIP pod) (getVersionForIp env tr (pod_HostIP pod))"
  from Cons.prems have run: "getPodsToRestart_loop env oa pods
      (processPod oa pod (getVersionForIp env tr (pod_HostIP pod)) acc) (tr @ [ev]) = (d', m', tr')"
    by (simp add: Let_def ev_def)
  obtain d1 m1 where acc1: "processPod oa pod (getVersionForIp env tr (pod_HostIP pod)) acc = (d1, m1)"
    by (cases "processPod oa pod (getVersionForIp env tr (pod_HostIP pod)) acc")
  from loop_shape[OF run[unfolded acc1]] obtain new where new: "tr' = (tr @ [ev]) @ new" by blast
  from Cons.IH[OF run] new have IH: "new = map2 (\<lambda>pod reply. EvGetVersionForIp (pod_HostIP pod) reply) pods (lookupReplies new)"
    by simp
  have "drop (length tr) tr' = ev # new" using new by simp
  moreover have "lookupReplies (ev # new) = getVersionForIp env tr (pod_HostIP pod) # lookupReplies new"
    by (simp add: lookupReplies_def map_filter_def ev_def)
  ultimately show ?case using IH by (simp add: ev_def)
qed

subsection \<open>hasSpecChanged\<close>



subsection \<open>The stages of Handle and the shape of a pass\<close>

lemma isRestartEvent_late: "isRestartEvent e \<Longrightarrow> isLateEvent e"
  by (cases e) (auto simp: isRestartEvent_def)

lemma upsertDaemonSet_events:
  "upsertDaemonSet env oa tr = (r, tr1) \<Longrightarrow> \<exists>s. tr1 = tr @ s \<and> list_all isSetupEvent s"
  by (auto simp: upsertDaemonSet_def Let_def split: sum.splits bool.splits option.splits if_splits)

lemma getSecretKey_events:
  "getSecretKey env cr key tr = (r, tr1) \<Longrightarrow> \<exists>s. tr1 = tr @ s \<and> list_all isSetupEvent s"
  by (auto simp: getSecretKey_def Let_def split: sum.splits option.splits)

lemma Handle_updateStatus_shape:
  "Handle_updateStatus env oa u tr = (r, oa', tr') \<Longrightarrow>
     \<exists>new. tr' = tr @ new \<and> list_all isLateEvent new
       \<and> Version (Status oa') = Version (Status oa) \<and> Items (Status oa') = Items (Status oa)"
  by (auto simp: Handle_updateStatus_def Let_def split: if_splits option.splits)

lemma Handle_restart_shape:
  assumes "Handle_restart env oa u tr = Some (r, oa', tr')"
  shows "Version (Status oa') = Version (Status oa) \<and>
     ((\<exists>err. tr' = tr @ [podQuery oa (Inl err)] \<and> r = Err err \<and> oa' = oa) \<or>
      (\<exists>pods new m. tr' = tr @ podQuery oa (Inr pods) # new \<and> list_all isLateEvent new
          \<and> Items (Status oa') = Some m \<and> dom m = pod_NodeName ` set pods))"
proof -
  let ?listOps = "\<lparr>lo_LabelSelector = getLabels oa, lo_FieldSelector = None\<rparr>"
  let ?reply = "listPods env tr (Namespace oa) ?listOps"
  have q: "EvListPods (Namespace oa) ?listOps reply = podQuery oa reply" for reply
    by (simp add: podQuery_def)
  show ?thesis
  proof (cases ?reply)
    case (Inl err)
    with assms show ?thesis
      by (auto simp: Handle_restart_def Let_def q)
  next
    case (Inr pods)
    define tr1 where "tr1 = tr @ [podQuery oa (Inr pods)]"
    obtain d m tr2 where g: "getPodsToRestart env oa pods tr1 = (d, m, tr2)"
      by (cases "getPodsToRestart env oa pods tr1") auto
    from loop_shape[OF g[unfolded getPodsToRestart_def]] obtain new1 where
      tr2: "tr2 = tr1 @ new1" and late1: "list_all isLateEvent new1"
      and dom: "dom m = pod_NodeName ` set pods"
      by auto
    define oa1 where "oa1 = (if Some m \<noteq> Items (Status oa)
        then oa\<lparr>Status := (Status oa)\<lparr>Items := Some m\<rparr>\<rparr> else oa)"
    define u1 where "u1 = (if Some m \<noteq> Items (Status oa) then True else u)"
    have oa1: "Items (Status oa1) = Some m" "Version (Status oa1) = Version (Status oa)"
      by (auto simp: oa1_def)
    have run: "Handle_restart env oa u tr =
       (case deletePods env oa1 d tr2 of
          None \<Rightarrow> None
        | Some (Nil, tr3) \<Rightarrow> Some (Handle_updateStatus env oa1 u1 tr3)
        | Some (failed, tr3) \<Rightarrow> Some (failed, oa1, tr3))"
      unfolding oa1_def u1_def
      using Inr g[unfolded tr1_def] by (simp add: Handle_restart_def Let_def q)
    from assms run obtain r1 tr3 where del: "deletePods env oa1 d tr2 = Some (r1, tr3)"
      by (auto split: option.splits)
    from deletePods_events[OF del] obtain new2 where
      tr3: "tr3 = tr2 @ new2" and late2: "list_all isLateEvent new2"
      by (auto simp: list_all_iff dest: isRestartEvent_late)
    show ?thesis
    proof (cases "r1 = Nil")
      case True
      with assms run del have "Handle_updateStatus env oa1 u1 tr3 = (r, oa', tr')" by simp
      from Handle_updateStatus_shape[OF this] obtain new3 where
        "tr' = tr3 @ new3" "list_all isLateEvent new3"
        "Version (Status oa') = Version (Status oa1)" "Items (Status oa') = Items (Status oa1)"
        by blast
      then have "tr' = tr @ podQuery oa (Inr pods) # (new1 @ new2 @ new3)"
        "list_all isLateEvent (new1 @ new2 @ new3)"
        "Items (Status oa') = Some m" "Version (Status oa') = Version (Status oa)"
        using tr3 tr2 late1 late2 oa1 by (simp_all add: tr1_def)
      with dom show ?thesis by blast
    next
      case False
      with assms run del have "r = r1" "oa' = oa1" "tr' = tr3" by (cases r1; simp)+
      then have "tr' = tr @ podQuery oa (Inr pods) # (new1 @ new2)"
        "list_all isLateEvent (new1 @ new2)"
        "Items (Status oa') = Some m" "Version (Status oa') = Version (Status oa)"
        using tr3 tr2 late1 late2 oa1 by (simp_all add: tr1_def)
      with dom show ?thesis by blast
    qed
  qed
qed

lemma setDesiredVersion_facts:
  "setDesiredVersion d (oa, u) = (oa1, u1) \<Longrightarrow>
     Version (Status oa1) = targetAfter oa d \<and> Items (Status oa1) = Items (Status oa)
     \<and> Namespace oa1 = Namespace oa \<and> Name oa1 = Name oa"
  by (auto simp: setDesiredVersion_def targetAfter_def split: if_splits)

lemma podQuery_cong: "Namespace a = Namespace b \<Longrightarrow> Name a = Name b \<Longrightarrow> podQuery a = podQuery b"
  by (simp add: podQuery_def getLabels_def fun_eq_iff)

lemma Handle_version_shape:
  assumes "Handle_version env oa u tr = Some (r, oa', tr')"
  shows "(\<exists>err. tr' = tr @ [EvGetVersionForLatest (Inl err)] \<and> r = Nil \<and> oa' = oa) \<or>
     (\<exists>d rest. tr' = tr @ EvGetVersionForLatest (Inr d) # rest
        \<and> Version (Status oa') = targetAfter oa d \<and>
        ((\<exists>err. rest = [podQuery oa (Inl err)] \<and> r = Err err \<and> Items (Status oa') = Items (Status oa)) \<or>
         (\<exists>pods new m. rest = podQuery oa (Inr pods) # new \<and> list_all isLateEvent new
            \<and> Items (Status oa') = Some m \<and> dom m = pod_NodeName ` set pods)))"
proof (cases "getVersionForLatest env tr")
  case (Inl err)
  with assms show ?thesis by (auto simp: Handle_version_def Let_def)
next
  case (Inr d)
  obtain oa1 u1 where s: "setDesiredVersion d (oa, u) = (oa1, u1)"
    by (cases "setDesiredVersion d (oa, u)") auto
  note f = setDesiredVersion_facts[OF s]
  have pq: "podQuery oa1 = podQuery oa" using f by (intro podQuery_cong) simp_all
  from assms Inr s have "Handle_restart env oa1 u1 (tr @ [EvGetVersionForLatest (Inr d)]) = Some (r, oa', tr')"
    by (simp add: Handle_version_def Let_def)
  from Handle_restart_shape[OF this] show ?thesis
    unfolding pq using f by auto
qed

lemma Handle_deploy_shape:
  assumes "Handle_deploy env oa u a p tr = Some (r, oa', tr')"
  shows "\<exists>s. list_all isSetupEvent s \<and>
     ((tr' = tr @ s \<and> r \<noteq> Nil \<and> oa' = oa) \<or> Handle_version env oa u (tr @ s) = Some (r, oa', tr'))"
proof -
  obtain r1 tr1 where up: "upsertDaemonSet env oa tr = (r1, tr1)"
    by (cases "upsertDaemonSet env oa tr") auto
  from upsertDaemonSet_events[OF up] obtain s1 where s1: "tr1 = tr @ s1" "list_all isSetupEvent s1"
    by blast
  show ?thesis
  proof (cases "r1 = Nil")
    case False
    with assms up have "tr' = tr1" "r = r1" "oa' = oa"
      by (cases r1; simp add: Handle_deploy_def)+
    with s1 False show ?thesis by blast
  next
    case True
    let ?err = "newClient env tr1 (ApiUrl (Spec oa)) a p"
    let ?s = "s1 @ [EvNewClient (ApiUrl (Spec oa)) a p ?err]"
    have su: "list_all isSetupEvent ?s" using s1(2) by simp
    show ?thesis
    proof (cases ?err)
      case (Some e)
      with assms up True have "tr' = tr @ ?s" "r = Err e" "oa' = oa"
        by (auto simp: Handle_deploy_def Let_def s1(1))
      with su show ?thesis by blast
    next
      case None
      with assms up True have "Handle_version env oa u (tr @ ?s) = Some (r, oa', tr')"
        by (simp add: Handle_deploy_def Let_def s1(1))
      with su show ?thesis by blast
    qed
  qed
qed

lemma defaultTokens_facts:
  "defaultTokens (oa, u) = (oa1, u1) \<Longrightarrow>
     Status oa1 = Status oa \<and> Namespace oa1 = Namespace oa \<and> Name oa1 = Name oa"
  by (auto simp: defaultTokens_def split: if_splits)

lemma ensureInstallerToken_facts:
  "ensureInstallerToken (oa, u) = Inr (oa1, u1) \<Longrightarrow>
     Status oa1 = Status oa \<and> Namespace oa1 = Namespace oa \<and> Name oa1 = Name oa"
  by (auto simp: ensureInstallerToken_def split: if_splits option.splits list.splits)

lemma Handle_OneAgent_shape:
  assumes "Handle_OneAgent env oa False = Some (r, oa', tr')"
  shows "\<exists>s oa2 u2. list_all isSetupEvent s \<and> Status oa2 = Status oa
     \<and> Namespace oa2 = Namespace oa \<and> Name oa2 = Name oa \<and>
     ((tr' = s \<and> r \<noteq> Nil \<and> Status oa' = Status oa) \<or> Handle_version env oa2 u2 s = Some (r, oa', tr'))"
proof -
  obtain oa1 u1 where dt: "defaultTokens (oa, False) = (oa1, u1)"
    by (cases "defaultTokens (oa, False)") auto
  note f1 = defaultTokens_facts[OF dt]
  obtain k1 tr1 where g1: "getSecretKey env oa1 ''paasToken'' [] = (k1, tr1)"
    by (cases "getSecretKey env oa1 ''paasToken'' []") auto
  from getSecretKey_events[OF g1] have s1: "list_all isSetupEvent tr1" by simp
  obtain k2 tr2 where g2: "getSecretKey env oa1 ''apiToken'' tr1 = (k2, tr2)"
    by (cases "getSecretKey env oa1 ''apiToken'' tr1") auto
  from getSecretKey_events[OF g2] s1 have s2: "list_all isSetupEvent tr2" by auto
  show ?thesis
  proof (cases k1)
    case (Inl err)
    with assms dt g1 have "tr' = tr1" "r = Err err" "oa' = oa1"
      by (simp_all add: Handle_OneAgent_def)
    with s1 f1 show ?thesis by blast
  next
    case paas: (Inr paasToken)
    show ?thesis
    proof (cases k2)
      case (Inl err)
      with assms dt g1 g2 paas have "tr' = tr2" "r = Err err" "oa' = oa1"
        by (auto simp: Handle_OneAgent_def)
      with s2 f1 show ?thesis by blast
    next
      case api: (Inr apiToken)
      show ?thesis
      proof (cases "ensureInstallerToken (oa1, u1)")
        case (Inl pn)
        with assms dt g1 g2 paas api have "tr' = tr2" "r = Panic pn" "oa' = oa1"
          by (auto simp: Handle_OneAgent_def)
        with s2 f1 show ?thesis by blast
      next
        case (Inr st)
        obtain oa2 u2 where st: "st = (oa2, u2)" by (cases st) auto
        note f2 = ensureInstallerToken_facts[OF Inr[unfolded st]]
        from assms dt g1 g2 paas api Inr st
        have "Handle_deploy env oa2 u2 apiToken paasToken tr2 = Some (r, oa', tr')"
          by (simp add: Handle_OneAgent_def)
        from Handle_deploy_shape[OF this] obtain s where
          s: "list_all isSetupEvent s"
          "(tr' = tr2 @ s \<and> r \<noteq> Nil \<and> oa' = oa2) \<or> Handle_version env oa2 u2 (tr2 @ s) = Some (r, oa', tr')"
          by blast
        have "list_all isSetupEvent (tr2 @ s)" using s2 s(1) by simp
        moreover have "Status oa2 = Status oa" "Namespace oa2 = Namespace oa" "Name oa2 = Name oa"
          using f1 f2 by simp_all
        ultimately show ?thesis using s(2) by blast
      qed
    qed
  qed
qed

lemma Handle_shape:
  assumes run: "Handle env event = Some (r, obj, tr')" and obj: "Object event = OneAgentObject oa"
  obtains
    (deleted) "Deleted event" "r = Nil" "obj = OneAgentObject oa" "tr' = []"
  | (early) oa' where "obj = OneAgentObject oa'" "list_all isSetupEvent tr'" "r \<noteq> Nil"
      "Status oa' = Status oa"
  | (unresolved) oa' s err where "obj = OneAgentObject oa'" "list_all isSetupEvent s"
      "tr' = s @ [EvGetVersionForLatest (Inl err)]" "r = Nil" "Status oa' = Status oa"
  | (nopods) oa' s d err where "obj = OneAgentObject oa'" "list_all isSetupEvent s"
      "tr' = s @ [EvGetVersionForLatest (Inr d), podQuery oa (Inl err)]" "r = Err err"
      "Version (Status oa') = targetAfter oa d" "Items (Status oa') = Items (Status oa)"
  | (restart) oa' s d pods new m where "obj = OneAgentObject oa'" "list_all isSetupEvent s"
      "tr' = s @ EvGetVersionForLatest (Inr d) # podQuery oa (Inr pods) # new"
      "list_all isLateEvent new"
      "Version (Status oa') = targetAfter oa d" "Items (Status oa') = Some m"
      "dom m = pod_NodeName ` set pods"
proof (cases "Deleted event")
  case True
  with run obj have "r = Nil" "obj = OneAgentObject oa" "tr' = []"
    by (auto simp: Handle_def Handle_OneAgent_def)
  with True show ?thesis by (rule deleted)
next
  case False
  with run obj obtain oa' where oa': "obj = OneAgentObject oa'"
    and h: "Handle_OneAgent env oa False = Some (r, oa', tr')"
    by (auto simp: Handle_def split: option.splits)
  from Handle_OneAgent_shape[OF h] obtain s oa2 u2 where
    s: "list_all isSetupEvent s" and st: "Status oa2 = Status oa"
    and ns: "Namespace oa2 = Namespace oa" "Name oa2 = Name oa"
    and alt: "(tr' = s \<and> r \<noteq> Nil \<and> Status oa' = Status oa) \<or> Handle_version env oa2 u2 s = Some (r, oa', tr')"
    by blast
  have pq: "podQuery oa2 = podQuery oa" using ns by (rule podQuery_cong)
  have ta: "targetAfter oa2 = targetAfter oa" using st by (simp add: targetAfter_def fun_eq_iff)
  from alt show ?thesis
  proof
    assume "tr' = s \<and> r \<noteq> Nil \<and> Status oa' = Status oa"
    with oa' s show ?thesis by (intro early[of oa']) simp_all
  next
    assume "Handle_version env oa2 u2 s = Some (r, oa', tr')"
    from Handle_version_shape[OF this] show ?thesis
    proof (elim disjE exE conjE, goal_cases)
      case (1 err)
      with oa' s st show ?thesis by (intro unresolved[of oa' s err]) simp_all
    next
      case (2 d rest err)
      then have "tr' = s @ [EvGetVersionForLatest (Inr d), podQuery oa (Inl err)]"
        "Version (Status oa') = targetAfter oa d" "Items (Status oa') = Items (Status oa)"
        using pq ta st by simp_all
      with oa' s 2(4) show ?thesis by (intro nopods[of oa' s d err]) simp_all
    next
      case (3 d rest pods new m)
      then have "tr' = s @ EvGetVersionForLatest (Inr d) # podQuery oa (Inr pods) # new"
        "Version (Status oa') = targetAfter oa d"
        using pq ta by simp_all
      with oa' s 3(4,5,6) show ?thesis by (intro restart[of oa' s d pods new m]) simp_all
    qed
  qed
qed

lemma setup_event_kind:
  "isSetupEvent e \<Longrightarrow> (\<forall>x. e \<noteq> EvGetVersionForLatest x) \<and> (\<forall>oa x. e \<noteq> podQuery oa x)
     \<and> \<not> isDeletePod e \<and> \<not> isUpdateOneAgent e"
  by (cases e) (auto simp: podQuery_def)

lemma late_event_kind:
  "isLateEvent e \<Longrightarrow> (\<forall>x. e \<noteq> EvGetVersionForLatest x) \<and> (\<forall>oa x. e \<noteq> podQuery oa x)"
  by (cases e) (auto simp: podQuery_def)

lemma setup_events_only:
  "list_all isSetupEvent s \<Longrightarrow>
     (\<forall>x. EvGetVersionForLatest x \<notin> set s) \<and> (\<forall>oa x. podQuery oa x \<notin> set s)
     \<and> \<not> list_ex isDeletePod s \<and> \<not> list_ex isUpdateOneAgent s"
  unfolding list_all_iff list_ex_iff using setup_event_kind by blast

lemma late_events_only:
  "list_all isLateEvent new \<Longrightarrow>
     (\<forall>x. EvGetVersionForLatest x \<notin> set new) \<and> (\<forall>oa x. podQuery oa x \<notin> set new)"
  unfolding list_all_iff using late_event_kind by blast

lemma podQuery_inject: "podQuery oa x = podQuery oa y \<Longrightarrow> x = y"
  by (simp add: podQuery_def)

lemma podQuery_not_version: "podQuery oa x \<noteq> EvGetVersionForLatest y"
  by (simp add: podQuery_def)

lemma Handle_version_down:
  "getVersionForLatest env = (\<lambda>tr. Inl err) \<Longrightarrow>
     Handle_version env oa u tr = Some (Nil, oa, tr @ [EvGetVersionForLatest (Inl err)])"
  by (simp add: Handle_version_def)

lemma Handle_total_down:
  assumes "getVersionForLatest env = (\<lambda>tr. Inl err)"
  shows "\<exists>y. Handle env event = Some y"
proof -
  have d: "\<exists>y. Handle_deploy env oa u a p tr = Some y" for oa u a p tr
    by (auto simp: Handle_deploy_def Let_def Handle_version_down[OF assms]
          split: prod.splits outcome.splits option.splits)
  have o: "\<exists>y. Handle_OneAgent env oa del = Some y" for oa del
    using d by (auto simp: Handle_OneAgent_def split: prod.splits sum.splits)
  show ?thesis
  proof (cases "Object event")
    case (OneAgentObject oa)
    from o[of oa "Deleted event"] obtain y where "Handle_OneAgent env oa (Deleted event) = Some y" ..
    then show ?thesis using OneAgentObject by (cases y) (auto simp: Handle_def)
  next
    case OtherObject
    then show ?thesis by (simp add: Handle_def)
  qed
qed

lemma Handle_object:
  "Handle env event = Some (r, obj, tr') \<Longrightarrow> Object event = OneAgentObject oa \<Longrightarrow>
     \<exists>oa'. obj = OneAgentObject oa'"
  by (auto simp: Handle_def split: option.splits)

subsection \<open>Passes in the example cluster, stage by stage\<close>

lemmas restart_defs = pollLoop.simps splayTimeSeconds_def podListOptions_def getLabels_def Let_def
  getPodReadyState_def

lemma example_setup:
  assumes env: "getSecret env = getSecret stalledCluster"
      "getDaemonSetObject env = getDaemonSetObject stalledCluster"
      "createDaemonSet env = createDaemonSet stalledCluster"
      "newClient env = newClient stalledCluster"
  shows "\<exists>s. list_all isSetupEvent s
     \<and> Handle_OneAgent env (agent0\<lparr>Status := st\<rparr>) False
         = Handle_version env (agentReady\<lparr>Status := st\<rparr>) True s"
proof -
  let ?oa = "agent0\<lparr>Status := st\<rparr>"
  let ?e = "EvGetSecret ''dynatrace'' ''oneagent'' (Inr [''paasToken'' \<mapsto> ''p-token'', ''apiToken'' \<mapsto> ''a-token''])"
  have dt: "defaultTokens (?oa, False) = (?oa, False)"
    by (simp add: defaultTokens_def agent0_def agentSpec_def)
  have g1: "getSecretKey env ?oa ''paasToken'' [] = (Inr ''p-token'', [?e])"
    by (simp add: getSecretKey_def Let_def env stalledCluster_def agent0_def agentSpec_def)
  have g2: "getSecretKey env ?oa ''apiToken'' [?e] = (Inr ''a-token'', [?e, ?e])"
    by (simp add: getSecretKey_def Let_def env stalledCluster_def agent0_def agentSpec_def)
  have en: "ensureInstallerToken (?oa, False) = Inr (agentReady\<lparr>Status := st\<rparr>, True)"
    by (simp add: ensureInstallerToken_def agentReady_def agent0_def agentSpec_def)
  obtain s3 where up: "upsertDaemonSet env (agentReady\<lparr>Status := st\<rparr>) [?e, ?e] = (Nil, [?e, ?e] @ s3)"
    and s3: "list_all isSetupEvent s3"
    by (simp add: upsertDaemonSet_def getDaemonSet_def applyOneAgentSettings_def
          applyOneAgentDefaults_def Let_def env stalledCluster_def)
  have nc: "newClient env tr url a p = None" for tr url a p
    by (simp add: env stalledCluster_def)
  let ?s = "([?e, ?e] @ s3) @ [EvNewClient (ApiUrl (Spec (agentReady\<lparr>Status := st\<rparr>))) ''a-token'' ''p-token'' None]"
  have "Handle_OneAgent env ?oa False = Handle_version env (agentReady\<lparr>Status := st\<rparr>) True ?s"
    by (simp add: Handle_OneAgent_def dt g1 g2 en Handle_deploy_def up nc Let_def)
  moreover have "list_all isSetupEvent ?s" using s3 by simp
  ultimately show ?thesis by blast
qed

lemma example_restart:
  assumes env: "listPods env = listPods stalledCluster"
      "getVersionForIp env = getVersionForIp stalledCluster"
      "deletePod env = deletePod stalledCluster"
      "now env = now stalledCluster"
      "updateOneAgent env = updateOneAgent stalledCluster"
  shows "\<exists>r oneagent' new. Handle_restart env agentReady u tr = Some (r, oneagent', tr @ new)
     \<and> podQuery agentReady (Inr [podN1, podN2]) \<in> set new
     \<and> Version (Status oneagent') = ''1.2.0''"
  by (simp add: Handle_restart_def getPodsToRestart_def processPod_def lookupItem_def
        Handle_updateStatus_def pollLoop.simps splayTimeSeconds_def podListOptions_def getLabels_def
        Let_def getPodReadyState_def podQuery_def env stalledCluster_def agentReady_def agent0_def
        agentSpec_def podN1_def podN2_def)

lemma example_event:
  "Handle env (passEvent oneagent) =
     map_option (\<lambda>(r, oneagent', tr). (r, OneAgentObject oneagent', tr)) (Handle_OneAgent env oneagent False)"
  by (simp add: Handle_def passEvent_def split: option.splits)

lemma agentReady_status: "agentReady\<lparr>Status := Status agent0\<rparr> = agentReady"
  by (simp add: agentReady_def)

lemma podQuery_agentReady: "podQuery agentReady = podQuery agent0"
  by (rule podQuery_cong) (simp_all add: agentReady_def)

section \<open>The statements of the specification\<close>

text \<open>
  Claim C1, amended. An instance is put on the retirement list if and only if its lookup
  of the installed version succeeded and the version differs from the target version of
  the status: the call makes one lookup for each pod, in order, and the list it returns is
  the list of the pods whose reply passes \<open>retire\<close>, in the order of discovery. An empty
  version is a version like any other here; the claim as written (\<open>retireNonEmpty\<close>)
  asks that it be non-empty, and the counterexample is a pod with an empty version that is
  put on the list.
\<close>

theorem getPodsToRestart_gating:
  assumes "getPodsToRestart env oneagent pods tr = (doomedPods, instances, tr')"
  shows "length (lookupReplies (drop (length tr) tr')) = length pods
     \<and> drop (length tr) tr' = map2 (\<lambda>pod reply. EvGetVersionForIp (pod_HostIP pod) reply) pods
          (lookupReplies (drop (length tr) tr'))
     \<and> doomedPods = map fst (filter (\<lambda>(pod, reply). retire oneagent reply)
          (zip pods (lookupReplies (drop (length tr) tr'))))"
proof -
  from loop_shape[OF assms[unfolded getPodsToRestart_def]] obtain new where
    "tr' = tr @ new" "length (lookupReplies new) = length pods"
    "doomedPods = [] @ map fst (filter (\<lambda>(pod, reply). retire oneagent reply) (zip pods (lookupReplies new)))"
    by blast
  then show ?thesis using loop_calls[OF assms[unfolded getPodsToRestart_def]] by simp
qed

theorem getPodsToRestart_gating_witness:
  "getPodsToRestart stalledCluster agent1 [podN1, podN2] [] =
     ([podN1],
      [''n1'' \<mapsto> \<lparr>PodName = ''oneagent-7xk2p'', inst_Version = ''1.1.0''\<rparr>,
       ''n2'' \<mapsto> \<lparr>PodName = ''oneagent-q9f4d'', inst_Version = ''1.2.0''\<rparr>],
      [EvGetVersionForIp ''10.0.0.1'' (Inr ''1.1.0''), EvGetVersionForIp ''10.0.0.2'' (Inr ''1.2.0'')])
   \<and> [podN1] = map fst (filter (\<lambda>(pod, reply). retire agent1 reply)
          (zip [podN1, podN2] [Inr ''1.1.0'', Inr ''1.2.0'']))"
proof -
  have run: "getPodsToRestart stalledCluster agent1 [podN1, podN2] [] =
     ([podN1],
      [''n1'' \<mapsto> \<lparr>PodName = ''oneagent-7xk2p'', inst_Version = ''1.1.0''\<rparr>,
       ''n2'' \<mapsto> \<lparr>PodName = ''oneagent-q9f4d'', inst_Version = ''1.2.0''\<rparr>],
      [EvGetVersionForIp ''10.0.0.1'' (Inr ''1.1.0''), EvGetVersionForIp ''10.0.0.2'' (Inr ''1.2.0'')])"
    by (simp add: getPodsToRestart_def processPod_def Let_def stalledCluster_def agent1_def agent0_def
          podN1_def podN2_def)
  from getPodsToRestart_gating[OF run] run show ?thesis
    by (simp add: lookupReplies_def map_filter_def)
qed

theorem getPodsToRestart_gating_counterexample:
  "fst (getPodsToRestart hostsBlank agent1 [podN1] []) = [podN1]
   \<and> lookupReplies (snd (snd (getPodsToRestart hostsBlank agent1 [podN1] []))) = [Inr '''']
   \<and> \<not> retireNonEmpty agent1 (Inr '''')"
  by (simp add: getPodsToRestart_def processPod_def Let_def hostsBlank_def stalledCluster_def agent1_def agent0_def
        podN1_def lookupReplies_def map_filter_def retireNonEmpty_def)

text \<open>
  Claim C2, at an input where the code departs from it. The budget of 15 seconds runs out
  for the pod of node n1 with no poll tick that found a ready replacement (every tick finds
  no pod at all); deletePods returns nil all the same, after it has gone on to delete the
  pod of node n2.
\<close>

theorem deletePods_timeout_unreported:
  "map_option fst (deletePods stalledCluster agent0 [podN1, podN2] []) = Some Nil
   \<and> map_option (deletions \<circ> snd) (deletePods stalledCluster agent0 [podN1, podN2] []) = Some [podN1, podN2]
   \<and> map_option (pollTicks \<circ> snd) (deletePods stalledCluster agent0 [podN1, podN2] []) = Some 4
   \<and> map_option (list_ex confirmedTick \<circ> snd) (deletePods stalledCluster agent0 [podN1, podN2] []) = Some False"
  by (simp add: restart_defs stalledCluster_def agent0_def agentSpec_def deletions_def map_filter_def
        pollTicks_def)




text \<open>
  Claim C4. For an instance whose lookup of the installed version fails, the record built
  for it has the version of the prior record of its node when the status has one, and the
  empty version when it has none (\<open>fallbackInstance\<close>): this is the record the loop body
  stores under the node, whatever was built before, and the retirement list stays as it
  was. In the map the call returns, it is the entry of the node of every pod whose lookup
  failed and that no later pod of the same node has overwritten.
\<close>

theorem getPodsToRestart_fallback:
  "snd (processPod oneagent pod (Inl err) (doomed, m)) (pod_NodeName pod)
       = Some (fallbackInstance oneagent pod)
   \<and> fst (processPod oneagent pod (Inl err) (doomed, m)) = doomed
   \<and> (getPodsToRestart env oneagent pods tr = (doomedPods, instances, tr')
        \<and> i < length pods
        \<and> lookupReplies (drop (length tr) tr') ! i = Inl err
        \<and> (\<forall>j. i < j \<and> j < length pods \<longrightarrow> pod_NodeName (pods ! j) \<noteq> pod_NodeName (pods ! i))
      \<longrightarrow> instances (pod_NodeName (pods ! i)) = Some (fallbackInstance oneagent (pods ! i)))"
proof (intro conjI impI)
  show "snd (processPod oneagent pod (Inl err) (doomed, m)) (pod_NodeName pod)
       = Some (fallbackInstance oneagent pod)"
    by (rule processPod_failed)
  show "fst (processPod oneagent pod (Inl err) (doomed, m)) = doomed"
    by (simp add: processPod_fst retire_def)
next
  assume a: "getPodsToRestart env oneagent pods tr = (doomedPods, instances, tr')
        \<and> i < length pods
        \<and> lookupReplies (drop (length tr) tr') ! i = Inl err
        \<and> (\<forall>j. i < j \<and> j < length pods \<longrightarrow> pod_NodeName (pods ! j) \<noteq> pod_NodeName (pods ! i))"
  then have run: "getPodsToRestart_loop env oneagent pods ([], Map.empty) tr = (doomedPods, instances, tr')"
    by (simp add: getPodsToRestart_def)
  from loop_shape[OF run] obtain new where
    new: "tr' = tr @ new"
    and failed: "\<forall>i err. i < length pods \<and> lookupReplies new ! i = Inl err
             \<and> (\<forall>j. i < j \<and> j < length pods \<longrightarrow> pod_NodeName (pods ! j) \<noteq> pod_NodeName (pods ! i))
             \<longrightarrow> instances (pod_NodeName (pods ! i)) = Some (fallbackInstance oneagent (pods ! i))"
    by blast
  show "instances (pod_NodeName (pods ! i)) = Some (fallbackInstance oneagent (pods ! i))"
    using failed[rule_format, of i err] a new by simp
qed

theorem getPodsToRestart_fallback_witness:
  "getPodsToRestart hostsUnknown agent1 [podN1, podN2] [] =
     ([],
      [''n1'' \<mapsto> \<lparr>PodName = ''oneagent-7xk2p'', inst_Version = ''1.1.0''\<rparr>,
       ''n2'' \<mapsto> \<lparr>PodName = ''oneagent-q9f4d'', inst_Version = ''''\<rparr>],
      [EvGetVersionForIp ''10.0.0.1'' (Inl (ApiError ''no agent found for host'')),
       EvGetVersionForIp ''10.0.0.2'' (Inl (ApiError ''no agent found for host''))])
   \<and> fallbackInstance agent1 podN1 = \<lparr>PodName = ''oneagent-7xk2p'', inst_Version = ''1.1.0''\<rparr>
   \<and> fallbackInstance agent1 podN2 = \<lparr>PodName = ''oneagent-q9f4d'', inst_Version = ''''\<rparr>"
proof -
  let ?e1 = "EvGetVersionForIp ''10.0.0.1'' (Inl (ApiError ''no agent found for host''))"
  let ?e2 = "EvGetVersionForIp ''10.0.0.2'' (Inl (ApiError ''no agent found for host''))"
  let ?m = "[''n1'' \<mapsto> \<lparr>PodName = ''oneagent-7xk2p'', inst_Version = ''1.1.0''\<rparr>,
       ''n2'' \<mapsto> \<lparr>PodName = ''oneagent-q9f4d'', inst_Version = ''''\<rparr>]"
  have run: "getPodsToRestart hostsUnknown agent1 [podN1, podN2] [] = ([], ?m, [?e1, ?e2])"
    by (simp add: getPodsToRestart_def processPod_def lookupItem_def Let_def hostsUnknown_def
          stalledCluster_def agent1_def agent0_def podN1_def podN2_def)
  have h0: "getPodsToRestart hostsUnknown agent1 [podN1, podN2] [] = ([], ?m, [?e1, ?e2])
        \<and> 0 < length [podN1, podN2]
        \<and> lookupReplies (drop (length ([]::event list)) [?e1, ?e2]) ! 0 = Inl (ApiError ''no agent found for host'')
        \<and> (\<forall>j. 0 < j \<and> j < length [podN1, podN2]
              \<longrightarrow> pod_NodeName ([podN1, podN2] ! j) \<noteq> pod_NodeName ([podN1, podN2] ! 0))"
    using run by (auto simp: lookupReplies_def map_filter_def podN1_def podN2_def less_Suc_eq)
  have h1: "getPodsToRestart hostsUnknown agent1 [podN1, podN2] [] = ([], ?m, [?e1, ?e2])
        \<and> 1 < length [podN1, podN2]
        \<and> lookupReplies (drop (length ([]::event list)) [?e1, ?e2]) ! 1 = Inl (ApiError ''no agent found for host'')
        \<and> (\<forall>j. 1 < j \<and> j < length [podN1, podN2]
              \<longrightarrow> pod_NodeName ([podN1, podN2] ! j) \<noteq> pod_NodeName ([podN1, podN2] ! 1))"
    using run by (auto simp: lookupReplies_def map_filter_def)
  note t0 = getPodsToRestart_fallback[THEN conjunct2, THEN conjunct2, rule_format, OF h0]
  note t1 = getPodsToRestart_fallback[THEN conjunct2, THEN conjunct2, rule_format, OF h1]
  have "fallbackInstance agent1 podN1 = \<lparr>PodName = ''oneagent-7xk2p'', inst_Version = ''1.1.0''\<rparr>"
    using t0 by (simp add: podN1_def)
  moreover have "fallbackInstance agent1 podN2 = \<lparr>PodName = ''oneagent-q9f4d'', inst_Version = ''''\<rparr>"
    using t1 by (simp add: podN1_def podN2_def)
  ultimately show ?thesis using run by simp
qed




text \<open>
  Claim C6. If the query for the recommended version fails, then the pass returns, and it
  returns nil; the status of the resource is the one it had, no pod is deleted and the
  resource is not written back. The first part is for a version authority that fails
  whenever it is asked, the second for any pass that returned and got this failure.
\<close>

theorem Handle_desired_version_failure:
  assumes obj: "Object event = OneAgentObject oneagent"
  shows "(getVersionForLatest env = (\<lambda>tr. Inl err) \<longrightarrow>
            (\<exists>r oneagent' tr'. Handle env event = Some (r, OneAgentObject oneagent', tr')))
     \<and> (Handle env event = Some (r, OneAgentObject oneagent', tr')
          \<and> EvGetVersionForLatest (Inl err) \<in> set tr' \<longrightarrow>
            r = Nil \<and> Status oneagent' = Status oneagent
            \<and> \<not> list_ex isDeletePod tr' \<and> \<not> list_ex isUpdateOneAgent tr')"
proof (rule conjI; rule impI)
  assume "getVersionForLatest env = (\<lambda>tr. Inl err)"
  from Handle_total_down[OF this, of event] obtain r ob tr' where run: "Handle env event = Some (r, ob, tr')"
    by (metis prod_cases3)
  from Handle_object[OF run obj] run
  show "\<exists>r oneagent' tr'. Handle env event = Some (r, OneAgentObject oneagent', tr')" by blast
next
  assume a: "Handle env event = Some (r, OneAgentObject oneagent', tr')
          \<and> EvGetVersionForLatest (Inl err) \<in> set tr'"
  then have run: "Handle env event = Some (r, OneAgentObject oneagent', tr')"
    and q: "EvGetVersionForLatest (Inl err) \<in> set tr'" by simp_all
  from run obj
  show "r = Nil \<and> Status oneagent' = Status oneagent
            \<and> \<not> list_ex isDeletePod tr' \<and> \<not> list_ex isUpdateOneAgent tr'"
  proof (cases rule: Handle_shape)
    case deleted
    with q show ?thesis by simp
  next
    case (early oa')
    with q setup_events_only[of tr'] show ?thesis by blast
  next
    case (unresolved oa' s err')
    with setup_events_only[of s] show ?thesis by (auto simp: list_ex_iff)
  next
    case (nopods oa' s d err')
    with q setup_events_only[of s] show ?thesis by (auto simp: podQuery_def)
  next
    case (restart oa' s d pods new m)
    with q setup_events_only[of s] late_events_only[of new] show ?thesis
      by (auto simp: podQuery_def)
  qed
qed

theorem Handle_desired_version_failure_witness:
  "Object (passEvent agent0) = OneAgentObject agent0
   \<and> getVersionForLatest authorityDown = (\<lambda>tr. Inl (ApiError ''unreachable''))
   \<and> (\<exists>r oneagent' tr'. Handle authorityDown (passEvent agent0) = Some (r, OneAgentObject oneagent', tr')
        \<and> EvGetVersionForLatest (Inl (ApiError ''unreachable'')) \<in> set tr'
        \<and> r = Nil \<and> Status oneagent' = Status agent0
        \<and> \<not> list_ex isDeletePod tr' \<and> \<not> list_ex isUpdateOneAgent tr')"
proof -
  have obj: "Object (passEvent agent0) = OneAgentObject agent0"
    by (simp add: passEvent_def)
  have down: "getVersionForLatest authorityDown = (\<lambda>tr. Inl (ApiError ''unreachable''))"
    by (simp add: authorityDown_def stalledCluster_def)
  from example_setup[of authorityDown "Status agent0"] obtain s where
    s: "Handle_OneAgent authorityDown agent0 False = Handle_version authorityDown agentReady True s"
    by (auto simp: authorityDown_def agentReady_status)
  have run: "Handle authorityDown (passEvent agent0)
      = Some (Nil, OneAgentObject agentReady, s @ [EvGetVersionForLatest (Inl (ApiError ''unreachable''))])"
    by (simp add: example_event s Handle_version_down[OF down])
  have q: "EvGetVersionForLatest (Inl (ApiError ''unreachable''))
      \<in> set (s @ [EvGetVersionForLatest (Inl (ApiError ''unreachable''))])"
    by simp
  note c = Handle_desired_version_failure[OF obj, THEN conjunct2, rule_format, OF conjI[OF run q]]
  note t = Handle_desired_version_failure[OF obj, THEN conjunct1, rule_format, OF down]
  have "\<exists>r oneagent' tr'. Handle authorityDown (passEvent agent0) = Some (r, OneAgentObject oneagent', tr')
        \<and> EvGetVersionForLatest (Inl (ApiError ''unreachable'')) \<in> set tr'
        \<and> r = Nil \<and> Status oneagent' = Status agent0
        \<and> \<not> list_ex isDeletePod tr' \<and> \<not> list_ex isUpdateOneAgent tr'"
    by (intro exI) (rule conjI[OF run conjI[OF q c]])
  with obj down show ?thesis by (intro conjI)
qed

text \<open>
  Claim C7. For every non-empty environment list, the injection of the installer token
  applied twice gives what it gives applied once: the list is the given one when its
  first entry is already named ONEAGENT_INSTALLER_TOKEN, and else the given one with the
  one injected entry in front; a resource whose first entry has that name is left as it is.
\<close>

theorem ensureInstallerToken_idempotent:
  assumes "Env (Spec oneagent) = Some (e # es)"
  shows "ensureInstallerTokenTwice (oneagent, updateStatus) = ensureInstallerToken (oneagent, updateStatus)
     \<and> (\<exists>oneagent1 updateStatus1.
           ensureInstallerToken (oneagent, updateStatus) = Inr (oneagent1, updateStatus1)
         \<and> Env (Spec oneagent1) =
             Some (if env_Name e = ''ONEAGENT_INSTALLER_TOKEN'' then e # es
                   else installerTokenEnvVar (Tokens (Spec oneagent)) # e # es))
     \<and> (env_Name e = ''ONEAGENT_INSTALLER_TOKEN'' \<longrightarrow>
           ensureInstallerToken (oneagent, updateStatus) = Inr (oneagent, updateStatus))"
  using assms
  by (auto simp: ensureInstallerTokenTwice_def ensureInstallerToken_def installerTokenEnvVar_def)

theorem ensureInstallerToken_idempotent_witness:
  "Env (Spec agent0) = Some [\<lparr>env_Name = ''ONEAGENT_INSTALLER_SCRIPT_URL'',
        env_Value = ''https://tenant.example/installer'', env_ValueFrom = None\<rparr>]
   \<and> ensureInstallerTokenTwice (agent0, False) = ensureInstallerToken (agent0, False)
   \<and> ensureInstallerToken (agent0, False) =
       Inr (agent0\<lparr>Spec := agentSpec\<lparr>Env := Some [installerTokenEnvVar ''oneagent'',
              \<lparr>env_Name = ''ONEAGENT_INSTALLER_SCRIPT_URL'',
               env_Value = ''https://tenant.example/installer'', env_ValueFrom = None\<rparr>]\<rparr>\<rparr>, True)"
proof -
  have h: "Env (Spec agent0) = Some [\<lparr>env_Name = ''ONEAGENT_INSTALLER_SCRIPT_URL'',
        env_Value = ''https://tenant.example/installer'', env_ValueFrom = None\<rparr>]"
    by (simp add: agent0_def agentSpec_def)
  from ensureInstallerToken_idempotent[OF h, of False] h show ?thesis
    by (simp add: ensureInstallerToken_def agent0_def agentSpec_def)
qed

text \<open>
  Claim C8. After a pass that has polled the live pods, the keys of the instance map of
  the status are exactly the node names of the pods of that poll, whatever the keys were
  before; getPodsToRestart builds a map with exactly these keys.
\<close>

theorem Handle_instances_keys:
  assumes run: "Handle env event = Some (r, OneAgentObject oneagent', tr')"
    and obj: "Object event = OneAgentObject oneagent"
    and q: "podQuery oneagent (Inr pods) \<in> set tr'"
  shows "(\<exists>m. Items (Status oneagent') = Some m \<and> dom m = pod_NodeName ` set pods)
     \<and> dom (fst (snd (getPodsToRestart env oneagent pods tr))) = pod_NodeName ` set pods"
proof
  from run obj show "\<exists>m. Items (Status oneagent') = Some m \<and> dom m = pod_NodeName ` set pods"
  proof (cases rule: Handle_shape)
    case deleted
    with q show ?thesis by simp
  next
    case (early oa')
    with q setup_events_only[of tr'] show ?thesis by blast
  next
    case (unresolved oa' s err')
    with q setup_events_only[of s] show ?thesis by (auto simp: podQuery_def)
  next
    case (nopods oa' s d err')
    with q setup_events_only[of s] show ?thesis by (auto simp: podQuery_def)
  next
    case (restart oa' s d pods0 new m)
    from q restart(3) setup_events_only[OF restart(2)] late_events_only[OF restart(4)]
    have "podQuery oneagent (Inr pods) = podQuery oneagent (Inr pods0)"
      using podQuery_not_version[of oneagent "Inr pods" "Inr d"] by auto
    then have "pods = pods0" by (auto dest: podQuery_inject)
    with restart show ?thesis by auto
  qed
next
  obtain d m t where g: "getPodsToRestart env oneagent pods tr = (d, m, t)"
    by (cases "getPodsToRestart env oneagent pods tr") auto
  from loop_shape[OF g[unfolded getPodsToRestart_def]] g
  show "dom (fst (snd (getPodsToRestart env oneagent pods tr))) = pod_NodeName ` set pods"
    by auto
qed

theorem Handle_instances_keys_witness:
  "\<exists>r oneagent' tr'. Handle stalledCluster (passEvent agent0) = Some (r, OneAgentObject oneagent', tr')
     \<and> podQuery agent0 (Inr [podN1, podN2]) \<in> set tr'
     \<and> (\<exists>m. Items (Status oneagent') = Some m \<and> dom m = {''n1'', ''n2''})"
proof -
  have obj: "Object (passEvent agent0) = OneAgentObject agent0"
    by (simp add: passEvent_def)
  from example_setup[of stalledCluster "Status agent0"] obtain s where
    s: "Handle_OneAgent stalledCluster agent0 False = Handle_version stalledCluster agentReady True s"
    by (auto simp: agentReady_status)
  have v: "Handle_version stalledCluster agentReady True s
      = Handle_restart stalledCluster agentReady True (s @ [EvGetVersionForLatest (Inr ''1.2.0'')])"
    by (simp add: Let_def Handle_version_def setDesiredVersion_def stalledCluster_def agentReady_def agent0_def)
  from example_restart[of stalledCluster True "s @ [EvGetVersionForLatest (Inr ''1.2.0'')]"]
  obtain r oneagent' new where
    rs: "Handle_restart stalledCluster agentReady True (s @ [EvGetVersionForLatest (Inr ''1.2.0'')])
       = Some (r, oneagent', (s @ [EvGetVersionForLatest (Inr ''1.2.0'')]) @ new)"
    and qr: "podQuery agentReady (Inr [podN1, podN2]) \<in> set new"
    by auto
  have run: "Handle stalledCluster (passEvent agent0)
      = Some (r, OneAgentObject oneagent', (s @ [EvGetVersionForLatest (Inr ''1.2.0'')]) @ new)"
    by (simp add: example_event s v rs)
  have q: "podQuery agent0 (Inr [podN1, podN2]) \<in> set ((s @ [EvGetVersionForLatest (Inr ''1.2.0'')]) @ new)"
    using qr by (simp add: podQuery_agentReady)
  have img: "pod_NodeName ` set [podN1, podN2] = {''n1'', ''n2''}"
    by (simp add: podN1_def podN2_def)
  note k = Handle_instances_keys[OF run obj q, THEN conjunct1, unfolded img]
  show ?thesis
    by (intro exI) (rule conjI[OF run conjI[OF q k]])
qed

text \<open>
  Claim C9. On a nil or empty environment list the check \<^verbatim>\<open>Env[0]\<close> is an access out
  of range: the injection panics exactly on these lists and has a result exactly on the
  non-empty ones, and a pass that has found both tokens ends in that panic.
\<close>

theorem ensureInstallerToken_empty_env:
  "(ensureInstallerToken (oneagent, updateStatus) = Inl IndexOutOfRange)
      = (Env (Spec oneagent) = None \<or> Env (Spec oneagent) = Some [])
   \<and> ((\<exists>st. ensureInstallerToken (oneagent, updateStatus) = Inr st)
      = (\<exists>e es. Env (Spec oneagent) = Some (e # es)))
   \<and> (Object event = OneAgentObject oneagent \<and> \<not> Deleted event
       \<and> (Env (Spec oneagent) = None \<or> Env (Spec oneagent) = Some [])
       \<and> getSecretKey env (fst (defaultTokens (oneagent, False))) ''paasToken'' [] = (Inr paasToken, tr1)
       \<and> getSecretKey env (fst (defaultTokens (oneagent, False))) ''apiToken'' tr1 = (Inr apiToken, tr2)
      \<longrightarrow> Handle env event
            = Some (Panic IndexOutOfRange, OneAgentObject (fst (defaultTokens (oneagent, False))), tr2))"
proof (intro conjI impI)
  show "(ensureInstallerToken (oneagent, updateStatus) = Inl IndexOutOfRange)
      = (Env (Spec oneagent) = None \<or> Env (Spec oneagent) = Some [])"
    by (auto simp: ensureInstallerToken_def split: option.splits list.splits)
  show "(\<exists>st. ensureInstallerToken (oneagent, updateStatus) = Inr st)
      = (\<exists>e es. Env (Spec oneagent) = Some (e # es))"
    by (auto simp: ensureInstallerToken_def split: option.splits list.splits)
next
  assume a: "Object event = OneAgentObject oneagent \<and> \<not> Deleted event
       \<and> (Env (Spec oneagent) = None \<or> Env (Spec oneagent) = Some [])
       \<and> getSecretKey env (fst (defaultTokens (oneagent, False))) ''paasToken'' [] = (Inr paasToken, tr1)
       \<and> getSecretKey env (fst (defaultTokens (oneagent, False))) ''apiToken'' tr1 = (Inr apiToken, tr2)"
  obtain oa1 u1 where dt: "defaultTokens (oneagent, False) = (oa1, u1)"
    by (cases "defaultTokens (oneagent, False)") auto
  have "Env (Spec oa1) = Env (Spec oneagent)"
    using dt by (auto simp: defaultTokens_def split: if_splits)
  with a have "ensureInstallerToken (oa1, u1) = Inl IndexOutOfRange"
    by (auto simp: ensureInstallerToken_def)
  with a dt show "Handle env event = Some (Panic IndexOutOfRange, OneAgentObject (fst (defaultTokens (oneagent, False))), tr2)"
    by (simp add: Handle_def Handle_OneAgent_def)
qed

theorem ensureInstallerToken_empty_env_witness:
  "Handle stalledCluster \<lparr>Object = OneAgentObject (agent0\<lparr>Spec := agentSpec\<lparr>Env := Some []\<rparr>\<rparr>), Deleted = False\<rparr>
     = Some (Panic IndexOutOfRange, OneAgentObject (agent0\<lparr>Spec := agentSpec\<lparr>Env := Some []\<rparr>\<rparr>),
         [EvGetSecret ''dynatrace'' ''oneagent'' (Inr [''paasToken'' \<mapsto> ''p-token'', ''apiToken'' \<mapsto> ''a-token'']),
          EvGetSecret ''dynatrace'' ''oneagent'' (Inr [''paasToken'' \<mapsto> ''p-token'', ''apiToken'' \<mapsto> ''a-token''])])
   \<and> ensureInstallerToken (agent0\<lparr>Spec := agentSpec\<lparr>Env := Some []\<rparr>\<rparr>, False) = Inl IndexOutOfRange"
proof -
  let ?oa = "agent0\<lparr>Spec := agentSpec\<lparr>Env := Some []\<rparr>\<rparr>"
  let ?s = "EvGetSecret ''dynatrace'' ''oneagent'' (Inr [''paasToken'' \<mapsto> ''p-token'', ''apiToken'' \<mapsto> ''a-token''])"
  have dt: "fst (defaultTokens (?oa, False)) = ?oa"
    by (simp add: defaultTokens_def agent0_def agentSpec_def)
  have h: "Object \<lparr>Object = OneAgentObject ?oa, Deleted = False\<rparr> = OneAgentObject ?oa
       \<and> \<not> Deleted \<lparr>Object = OneAgentObject ?oa, Deleted = False\<rparr>
       \<and> (Env (Spec ?oa) = None \<or> Env (Spec ?oa) = Some [])
       \<and> getSecretKey stalledCluster (fst (defaultTokens (?oa, False))) ''paasToken'' [] = (Inr ''p-token'', [?s])
       \<and> getSecretKey stalledCluster (fst (defaultTokens (?oa, False))) ''apiToken'' [?s] = (Inr ''a-token'', [?s, ?s])"
    unfolding dt by (simp add: getSecretKey_def stalledCluster_def agent0_def agentSpec_def Let_def)
  from ensureInstallerToken_empty_env[of ?oa False "\<lparr>Object = OneAgentObject ?oa, Deleted = False\<rparr>" stalledCluster "''p-token''" "[?s]" "''a-token''" "[?s, ?s]"] h
  show ?thesis unfolding dt by simp
qed

text \<open>
  Claim C10. An empty answer of the version authority leaves the resource and the flag
  \<^verbatim>\<open>updateStatus\<close> as they are, and a pass that got this answer ends with the target
  version it started with. A pass that ends with another target version than it started
  with got that version, a non-empty one, as the answer.
\<close>

theorem Handle_desired_version_empty:
  assumes run: "Handle env event = Some (r, OneAgentObject oneagent', tr')"
    and obj: "Object event = OneAgentObject oneagent"
  shows "setDesiredVersion '''' (oneagent, updateStatus) = (oneagent, updateStatus)
     \<and> (EvGetVersionForLatest (Inr '''') \<in> set tr' \<longrightarrow>
           Version (Status oneagent') = Version (Status oneagent))
     \<and> (Version (Status oneagent') \<noteq> Version (Status oneagent) \<longrightarrow>
           Version (Status oneagent') \<noteq> ''''
           \<and> EvGetVersionForLatest (Inr (Version (Status oneagent'))) \<in> set tr')"
proof (intro conjI)
  show "setDesiredVersion '''' (oneagent, updateStatus) = (oneagent, updateStatus)"
    by (simp add: setDesiredVersion_def)
  from run obj
  show "EvGetVersionForLatest (Inr '''') \<in> set tr' \<longrightarrow>
           Version (Status oneagent') = Version (Status oneagent)"
  proof (cases rule: Handle_shape)
    case deleted
    then show ?thesis by simp
  next
    case (early oa')
    then show ?thesis by simp
  next
    case (unresolved oa' s err')
    then show ?thesis by simp
  next
    case (nopods oa' s d err')
    with setup_events_only[of s] show ?thesis by (auto simp: podQuery_def targetAfter_def)
  next
    case (restart oa' s d pods new m)
    with setup_events_only[of s] late_events_only[of new] show ?thesis
      by (auto simp: podQuery_def targetAfter_def)
  qed
  from run obj
  show "Version (Status oneagent') \<noteq> Version (Status oneagent) \<longrightarrow>
           Version (Status oneagent') \<noteq> ''''
           \<and> EvGetVersionForLatest (Inr (Version (Status oneagent'))) \<in> set tr'"
  proof (cases rule: Handle_shape)
    case deleted
    then show ?thesis by simp
  next
    case (early oa')
    then show ?thesis by simp
  next
    case (unresolved oa' s err')
    then show ?thesis by simp
  next
    case (nopods oa' s d err')
    then show ?thesis by (auto simp: targetAfter_def split: if_splits)
  next
    case (restart oa' s d pods new m)
    then show ?thesis by (auto simp: targetAfter_def split: if_splits)
  qed
qed

theorem Handle_desired_version_empty_witness:
  "(\<exists>r oneagent' tr'. Handle authorityEmpty (passEvent agent0) = Some (r, OneAgentObject oneagent', tr')
      \<and> EvGetVersionForLatest (Inr '''') \<in> set tr'
      \<and> Version (Status oneagent') = Version (Status agent0))
   \<and> (\<exists>r oneagent' tr'. Handle stalledCluster (passEvent agentOld) = Some (r, OneAgentObject oneagent', tr')
      \<and> Version (Status oneagent') \<noteq> Version (Status agentOld)
      \<and> Version (Status oneagent') \<noteq> ''''
      \<and> EvGetVersionForLatest (Inr (Version (Status oneagent'))) \<in> set tr')"
proof
  have obj: "Object (passEvent agent0) = OneAgentObject agent0"
    by (simp add: passEvent_def)
  from example_setup[of authorityEmpty "Status agent0"] obtain s where
    s: "Handle_OneAgent authorityEmpty agent0 False = Handle_version authorityEmpty agentReady True s"
    by (auto simp: agentReady_status authorityEmpty_def)
  have v: "Handle_version authorityEmpty agentReady True s
      = Handle_restart authorityEmpty agentReady True (s @ [EvGetVersionForLatest (Inr '''')])"
    by (simp add: Let_def Handle_version_def setDesiredVersion_def authorityEmpty_def stalledCluster_def)
  from example_restart[of authorityEmpty True "s @ [EvGetVersionForLatest (Inr '''')]"]
  obtain r oneagent' new where
    rs: "Handle_restart authorityEmpty agentReady True (s @ [EvGetVersionForLatest (Inr '''')])
       = Some (r, oneagent', (s @ [EvGetVersionForLatest (Inr '''')]) @ new)"
    by (auto simp: authorityEmpty_def)
  have run: "Handle authorityEmpty (passEvent agent0)
      = Some (r, OneAgentObject oneagent', (s @ [EvGetVersionForLatest (Inr '''')]) @ new)"
    by (simp add: example_event s v rs)
  have q: "EvGetVersionForLatest (Inr '''') \<in> set ((s @ [EvGetVersionForLatest (Inr '''')]) @ new)"
    by simp
  note c = Handle_desired_version_empty[OF run obj, of False, THEN conjunct2, THEN conjunct1, rule_format, OF q]
  show "\<exists>r oneagent' tr'. Handle authorityEmpty (passEvent agent0) = Some (r, OneAgentObject oneagent', tr')
      \<and> EvGetVersionForLatest (Inr '''') \<in> set tr'
      \<and> Version (Status oneagent') = Version (Status agent0)"
    by (intro exI) (rule conjI[OF run conjI[OF q c]])
next
  have obj: "Object (passEvent agentOld) = OneAgentObject agentOld"
    by (simp add: passEvent_def)
  from example_setup[of stalledCluster "Status agentOld"] obtain s where
    s: "Handle_OneAgent stalledCluster agentOld False
        = Handle_version stalledCluster (agentReady\<lparr>Status := Status agentOld\<rparr>) True s"
    by (auto simp: agentOld_def)
  have v: "Handle_version stalledCluster (agentReady\<lparr>Status := Status agentOld\<rparr>) True s
      = Handle_restart stalledCluster agentReady True (s @ [EvGetVersionForLatest (Inr ''1.2.0'')])"
    by (simp add: Let_def Handle_version_def setDesiredVersion_def stalledCluster_def agentReady_def agent0_def
          agentOld_def)
  from example_restart[of stalledCluster True "s @ [EvGetVersionForLatest (Inr ''1.2.0'')]"]
  obtain r oneagent' new where
    rs: "Handle_restart stalledCluster agentReady True (s @ [EvGetVersionForLatest (Inr ''1.2.0'')])
       = Some (r, oneagent', (s @ [EvGetVersionForLatest (Inr ''1.2.0'')]) @ new)"
    and ver: "Version (Status oneagent') = ''1.2.0''"
    by auto
  have run: "Handle stalledCluster (passEvent agentOld)
      = Some (r, OneAgentObject oneagent', (s @ [EvGetVersionForLatest (Inr ''1.2.0'')]) @ new)"
    by (simp add: example_event s v rs)
  have ch: "Version (Status oneagent') \<noteq> Version (Status agentOld)"
    using ver by (simp add: agentOld_def)
  note c = Handle_desired_version_empty[OF run obj, of False, THEN conjunct2, THEN conjunct2, rule_format, OF ch]
  show "\<exists>r oneagent' tr'. Handle stalledCluster (passEvent agentOld) = Some (r, OneAgentObject oneagent', tr')
      \<and> Version (Status oneagent') \<noteq> Version (Status agentOld)
      \<and> Version (Status oneagent') \<noteq> ''''
      \<and> EvGetVersionForLatest (Inr (Version (Status oneagent'))) \<in> set tr'"
    by (intro exI) (rule conjI[OF run conjI[OF ch c]])
qed

end
